theory Spec2Isabelle
  imports Complex_Main
begin

section \<open>Python values\<close>

text \<open>
  The importer exists twice in the repository: \<^verbatim>\<open>spine_importer.py\<close> and its reworked
  sibling \<^verbatim>\<open>spine_importer_improved.py\<close>.  Functions of the first keep their source
  name, functions of the second carry the suffix \<open>_improved\<close>; code that is the same in
  both files is embedded once.
\<close>

datatype py_error =
  KeyError | ValueError | TypeError | OverflowError | AttributeError | IOError

subsection \<open>Floats\<close>

text \<open>
  A Python float is an IEEE 754 double: a finite value, an infinity or NaN.  The two zeros
  are one value \<open>Fin 0\<close>; the importer never looks at the sign of a zero.
\<close>

datatype pyfloat = Fin real | PInf | NInf | NaN

text \<open>
  Rounding of a real to the nearest double, ties to the even mantissa.  \<open>binade\<close> is the
  exponent of the leading bit, held at -1022 for subnormal numbers, so that the doubles
  around \<open>r\<close> are the multiples of \<open>2 powi (binade r - 52)\<close>.  A result of magnitude
  \<open>2 ^ 1024\<close> or more is an infinity.
\<close>

definition round_even :: "real \<Rightarrow> int" where
  "round_even q =
     (let f = \<lfloor>q\<rfloor>; d = q - of_int f
      in if d < 1/2 then f else if 1/2 < d then f + 1 else if even f then f else f + 1)"

definition binade :: "real \<Rightarrow> int" where
  "binade r = max \<lfloor>log 2 \<bar>r\<bar>\<rfloor> (- 1022)"

definition round_double :: "real \<Rightarrow> pyfloat" where
  "round_double r =
     (if r = 0 then Fin 0
      else
        (let u = 2 powi (binade r - 52);
             v = of_int (round_even (r / u)) * u
         in if 2 ^ 1024 \<le> \<bar>v\<bar> then (if 0 < r then PInf else NInf) else Fin v))"

text \<open>\<^verbatim>\<open>a * b\<close>, \<^verbatim>\<open>a - b\<close>, \<^verbatim>\<open>-a\<close> and \<^verbatim>\<open>a > b\<close> on floats.\<close>

fun fmul :: "pyfloat \<Rightarrow> pyfloat \<Rightarrow> pyfloat" where
  "fmul (Fin x) (Fin y) = round_double (x * y)"
| "fmul NaN b = NaN"
| "fmul a NaN = NaN"
| "fmul PInf (Fin y) = (if y = 0 then NaN else if 0 < y then PInf else NInf)"
| "fmul NInf (Fin y) = (if y = 0 then NaN else if 0 < y then NInf else PInf)"
| "fmul (Fin x) PInf = (if x = 0 then NaN else if 0 < x then PInf else NInf)"
| "fmul (Fin x) NInf = (if x = 0 then NaN else if 0 < x then NInf else PInf)"
| "fmul PInf PInf = PInf"
| "fmul PInf NInf = NInf"
| "fmul NInf PInf = NInf"
| "fmul NInf NInf = PInf"

fun fsub :: "pyfloat \<Rightarrow> pyfloat \<Rightarrow> pyfloat" where
  "fsub (Fin x) (Fin y) = round_double (x - y)"
| "fsub NaN b = NaN"
| "fsub a NaN = NaN"
| "fsub PInf PInf = NaN"
| "fsub NInf NInf = NaN"
| "fsub PInf b = PInf"
| "fsub NInf b = NInf"
| "fsub (Fin x) PInf = NInf"
| "fsub (Fin x) NInf = PInf"

fun fneg :: "pyfloat \<Rightarrow> pyfloat" where
  "fneg (Fin x) = Fin (- x)"
| "fneg PInf = NInf"
| "fneg NInf = PInf"
| "fneg NaN = NaN"

fun fgt :: "pyfloat \<Rightarrow> pyfloat \<Rightarrow> bool" where
  "fgt NaN b = False"
| "fgt a NaN = False"
| "fgt (Fin x) (Fin y) = (y < x)"
| "fgt PInf PInf = False"
| "fgt PInf b = True"
| "fgt NInf b = False"
| "fgt (Fin x) PInf = False"
| "fgt (Fin x) NInf = True"

text \<open>\<^verbatim>\<open>max(a, b)\<close> keeps \<open>a\<close> unless \<^verbatim>\<open>b > a\<close>.\<close>

definition py_max :: "pyfloat \<Rightarrow> pyfloat \<Rightarrow> pyfloat" where
  "py_max a b = (if fgt b a then b else a)"

text \<open>
  \<^verbatim>\<open>int(x)\<close> on a float truncates towards zero; it raises on an infinity and on NaN.
\<close>

definition trunc :: "real \<Rightarrow> int" where
  "trunc r = (if 0 \<le> r then \<lfloor>r\<rfloor> else \<lceil>r\<rceil>)"

fun py_int :: "pyfloat \<Rightarrow> py_error + int" where
  "py_int (Fin r) = Inr (trunc r)"
| "py_int PInf = Inl OverflowError"
| "py_int NInf = Inl OverflowError"
| "py_int NaN = Inl ValueError"

text \<open>The literals \<^verbatim>\<open>0.01\<close>, \<^verbatim>\<open>0.1\<close> and \<^verbatim>\<open>0.3\<close> of the source.\<close>

definition lit_0_01 :: pyfloat where
  "lit_0_01 = round_double (1 / 100)"

definition lit_0_1 :: pyfloat where
  "lit_0_1 = round_double (1 / 10)"

definition lit_0_3 :: pyfloat where
  "lit_0_3 = round_double (3 / 10)"

text \<open>
  A numeric field of a JSON object is modelled by what \<^verbatim>\<open>float(...)\<close> does with it.
  \<open>JInt\<close> is an integer (a boolean counts as 0 or 1): it is rounded to a double, and
  \<^verbatim>\<open>OverflowError\<close> is raised when that is out of range.  \<open>JFloat\<close> is a value that
  \<^verbatim>\<open>float\<close> returns as it is or reads from a numeric string; \<^verbatim>\<open>json.load\<close> yields
  infinities and NaN too.  \<open>JBadString\<close> is a string that is not a number
  (\<^verbatim>\<open>ValueError\<close>), \<open>JBadType\<close> is null, a list or an object (\<^verbatim>\<open>TypeError\<close>).  A field
  of type \<open>jnum option\<close> is \<open>None\<close> when the key is absent from the object.
\<close>

datatype jnum = JInt int | JFloat pyfloat | JBadString | JBadType

fun is_finite :: "pyfloat \<Rightarrow> bool" where
  "is_finite (Fin r) = True"
| "is_finite f = False"

fun py_float :: "jnum \<Rightarrow> py_error + pyfloat" where
  "py_float (JInt i) =
     (if is_finite (round_double (of_int i)) then Inr (round_double (of_int i))
      else Inl OverflowError)"
| "py_float (JFloat f) = Inr f"
| "py_float JBadString = Inl ValueError"
| "py_float JBadType = Inl TypeError"

text \<open>\<^verbatim>\<open>float(obj.get(key, 0))\<close> and \<^verbatim>\<open>float(obj.get(key, d))\<close>\<close>

fun get_float :: "jnum option \<Rightarrow> py_error + pyfloat" where
  "get_float None = Inr (Fin 0)"
| "get_float (Some j) = py_float j"

fun get_float_or :: "pyfloat \<Rightarrow> jnum option \<Rightarrow> py_error + pyfloat" where
  "get_float_or d None = Inr d"
| "get_float_or d (Some j) = py_float j"

subsection \<open>Strings\<close>

text \<open>
  A Python string is the list of its code points; \<open>lit\<close> is a string of ASCII
  characters.
\<close>

type_synonym ustring = "nat list"

definition lit :: "string \<Rightarrow> ustring" where
  "lit s = map of_char s"

fun startswith :: "ustring \<Rightarrow> ustring \<Rightarrow> bool" where
  "startswith s p = (take (length p) s = p)"

fun endswith :: "ustring \<Rightarrow> ustring \<Rightarrow> bool" where
  "endswith s p = (length p \<le> length s \<and> drop (length s - length p) s = p)"

text \<open>\<^verbatim>\<open>needle in s\<close>\<close>

fun contains :: "ustring \<Rightarrow> ustring \<Rightarrow> bool" where
  "contains needle [] = (needle = [])"
| "contains needle (c # cs) = (startswith (c # cs) needle \<or> contains needle cs)"

text \<open>\<^verbatim>\<open>s.split(sep)[0]\<close> and \<^verbatim>\<open>s.split(sep)[1]\<close> for a one-character separator.\<close>

definition split_first :: "nat \<Rightarrow> ustring \<Rightarrow> ustring" where
  "split_first sep s = takeWhile (\<lambda>c. c \<noteq> sep) s"

definition split_second :: "nat \<Rightarrow> ustring \<Rightarrow> ustring" where
  "split_second sep s = takeWhile (\<lambda>c. c \<noteq> sep) (drop 1 (dropWhile (\<lambda>c. c \<noteq> sep) s))"

text \<open>
  The code points that \<^verbatim>\<open>str.strip()\<close> removes, those for which \<^verbatim>\<open>str.isspace\<close> holds:
  U+0009 to U+000D, U+001C to U+0020, U+0085, U+00A0, U+1680, U+2000 to U+200A, U+2028,
  U+2029, U+202F, U+205F and U+3000.
\<close>

definition is_space :: "nat \<Rightarrow> bool" where
  "is_space c =
     ((9 \<le> c \<and> c \<le> 13) \<or> (28 \<le> c \<and> c \<le> 32) \<or> c = 133 \<or> c = 160 \<or> c = 5760
      \<or> (8192 \<le> c \<and> c \<le> 8202) \<or> c = 8232 \<or> c = 8233 \<or> c = 8239 \<or> c = 8287
      \<or> c = 12288)"

definition strip :: "ustring \<Rightarrow> ustring" where
  "strip s = rev (dropWhile is_space (rev (dropWhile is_space s)))"

text \<open>
  \<^verbatim>\<open>str.lower()\<close>, as far as a test for an ASCII needle can see it.  The letters A to Z
  become a to z, U+0130 becomes i followed by U+0307, and U+212A becomes k.  On every other
  code point \<^verbatim>\<open>str.lower()\<close> yields code points outside ASCII only; the model keeps such
  a code point as it is, which leaves every run of ASCII code points of the result, and
  with it every occurrence of an ASCII needle, as Python has it.
\<close>

definition lower_cp :: "nat \<Rightarrow> ustring" where
  "lower_cp c =
     (if 65 \<le> c \<and> c \<le> 90 then [c + 32]
      else if c = 304 then [105, 775]
      else if c = 8490 then [107]
      else [c])"

definition lower :: "ustring \<Rightarrow> ustring" where
  "lower s = concat (map lower_cp s)"

text \<open>
  A value handed to \<open>safe_str\<close>: JSON null, or any other value, represented by the string
  that \<^verbatim>\<open>str(...)\<close> makes of it.
\<close>

datatype jstr = JNull | JStr ustring

definition replace_char :: "nat \<Rightarrow> nat \<Rightarrow> ustring \<Rightarrow> ustring" where
  "replace_char a b s = map (\<lambda>c. if c = a then b else c) s"

text \<open>
  \<^verbatim>\<open>spine_importer.py\<close>: backslash becomes slash, the double quote becomes the single
  quote, newline becomes space, then strip.
\<close>

fun safe_str :: "jstr \<Rightarrow> ustring" where
  "safe_str JNull = []"
| "safe_str (JStr s) = strip (replace_char 10 32 (replace_char 34 39 (replace_char 92 47 s)))"

text \<open>\<^verbatim>\<open>spine_importer_improved.py\<close>: no newline replacement and no strip.\<close>

fun safe_str_improved :: "jstr \<Rightarrow> ustring" where
  "safe_str_improved JNull = []"
| "safe_str_improved (JStr s) = replace_char 34 39 (replace_char 92 47 s)"

subsection \<open>The log\<close>

text \<open>
  Every \<open>debug_print\<close> call appends one entry.  The improved file passes a level; the
  first file marks its messages with a leading pictogram instead, read here as
  \<open>WARNING\<close> for the warning sign, \<open>ERROR\<close> for the cross mark and \<open>INFO\<close> otherwise.
  A message is kept as an English gloss of its format string with its string arguments.
\<close>

datatype level = INFO | WARNING | ERROR

type_synonym log_entry = "level \<times> string \<times> ustring list"

type_synonym log = "log_entry list"

definition warnings :: "log \<Rightarrow> log" where
  "warnings lg = filter (\<lambda>e. fst e = WARNING) lg"

subsection \<open>The host application\<close>

text \<open>
  What the importer uses and changes in the host through \<^verbatim>\<open>pymxs.runtime\<close>: the
  listener that \<open>debug_print\<close> prints to, the animation range, the time slider, the number
  of bone nodes and of bitmap textures created, the plane nodes created, the values
  assigned to a bone's position or rotation, each with the slider time at which it was
  assigned, the selected nodes, and the host's own function \<^verbatim>\<open>rt.radToDeg\<close>.  Host
  calls are taken to succeed.
\<close>

record plane =
  pl_name :: ustring
  pl_parent :: ustring
  pl_material :: "ustring option"
  pl_width :: pyfloat
  pl_length :: pyfloat

datatype baked_key =
    PosKey ustring int "pyfloat \<times> pyfloat \<times> pyfloat"
  | RotKey ustring int pyfloat

record host =
  listener :: log
  animationRange :: "int \<times> int"
  sliderTime :: int
  bone_nodes :: nat
  bitmaps :: nat
  planes :: "plane list"
  baked :: "baked_key list"
  selection :: "ustring set"
  radToDeg :: "pyfloat \<Rightarrow> pyfloat"

definition debug_print :: "log_entry \<Rightarrow> host \<Rightarrow> host" where
  "debug_print e h = h\<lparr>listener := listener h @ [e]\<rparr>"

text \<open>Several \<open>debug_print\<close> calls in a row.\<close>

definition debug_prints :: "log \<Rightarrow> host \<Rightarrow> host" where
  "debug_prints es h = h\<lparr>listener := listener h @ es\<rparr>"

section \<open>Animation data\<close>

text \<open>
  A keyframe object, a bone's channels, a clip, and a top-level value of the document as
  the animation importer sees it: a mapping of clips, a value with a length but no
  \<^verbatim>\<open>keys()\<close> (string or list), or a value without a length (null, number, boolean,
  with its truth value).  Dictionaries are association lists in document order; the keys
  of a parsed JSON object are distinct.
\<close>

record frame =
  f_time :: "jnum option"
  f_x :: "jnum option"
  f_y :: "jnum option"
  f_angle :: "jnum option"

record bone_anim =
  ba_translate :: "frame list option"
  ba_rotate :: "frame list option"
  ba_scale :: "frame list option"

record anim_data =
  ad_bones :: "(ustring \<times> bone_anim) list option"

type_synonym clips = "(ustring \<times> anim_data) list"

datatype tvalue = VClips clips | VSized nat | VUnsized bool

fun truthy :: "tvalue \<Rightarrow> bool" where
  "truthy (VClips cs) = (cs \<noteq> [])"
| "truthy (VSized n) = (0 < n)"
| "truthy (VUnsized b) = b"

text \<open>
  The top-level keys of the document in document order, each with its value as the
  animation importer sees it; the lists under \<^verbatim>\<open>bones\<close> and \<^verbatim>\<open>slots\<close> are values
  with a length.
\<close>

type_synonym toplevel = "(ustring \<times> tvalue) list"

text \<open>\<^verbatim>\<open>data.get(key, {})\<close>\<close>

definition data_get :: "toplevel \<Rightarrow> ustring \<Rightarrow> tvalue" where
  "data_get data key = (case map_of data key of None \<Rightarrow> VClips [] | Some v \<Rightarrow> v)"

subsection \<open>Length of the animation\<close>

text \<open>
  The nested loop of \<open>import_animation\<close> that computes \<open>anim_length\<close>, the same in both
  files.  A \<^verbatim>\<open>float(...)\<close> that raises leaves the loop; the exception reaches the
  handler around the whole function.
\<close>

fun scan_frames :: "pyfloat \<Rightarrow> frame list \<Rightarrow> py_error + pyfloat" where
  "scan_frames m [] = Inr m"
| "scan_frames m (f # fs) =
     (case get_float (f_time f) of
        Inl e \<Rightarrow> Inl e
      | Inr t \<Rightarrow> scan_frames (py_max m t) fs)"

fun scan_channel :: "pyfloat \<Rightarrow> frame list option \<Rightarrow> py_error + pyfloat" where
  "scan_channel m None = Inr m"
| "scan_channel m (Some fs) = scan_frames m fs"

definition scan_bone_anim :: "pyfloat \<Rightarrow> bone_anim \<Rightarrow> py_error + pyfloat" where
  "scan_bone_anim m ba =
     (case scan_channel m (ba_translate ba) of
        Inl e \<Rightarrow> Inl e
      | Inr m1 \<Rightarrow>
          (case scan_channel m1 (ba_rotate ba) of
             Inl e \<Rightarrow> Inl e
           | Inr m2 \<Rightarrow> scan_channel m2 (ba_scale ba)))"

fun scan_bones :: "pyfloat \<Rightarrow> (ustring \<times> bone_anim) list \<Rightarrow> py_error + pyfloat" where
  "scan_bones m [] = Inr m"
| "scan_bones m ((n, ba) # bs) =
     (case scan_bone_anim m ba of
        Inl e \<Rightarrow> Inl e
      | Inr m' \<Rightarrow> scan_bones m' bs)"

text \<open>\<^verbatim>\<open>anim_data.get("bones", {})\<close>\<close>

definition bones_of :: "anim_data \<Rightarrow> (ustring \<times> bone_anim) list" where
  "bones_of ad = (case ad_bones ad of None \<Rightarrow> [] | Some bs \<Rightarrow> bs)"

fun scan_clips :: "pyfloat \<Rightarrow> clips \<Rightarrow> py_error + pyfloat" where
  "scan_clips m [] = Inr m"
| "scan_clips m ((n, ad) # cs) =
     (case scan_bones m (bones_of ad) of
        Inl e \<Rightarrow> Inl e
      | Inr m' \<Rightarrow> scan_clips m' cs)"

text \<open>
  \<^verbatim>\<open>anim_length = int(anim_length * 30) + 10\<close>: the float product, then \<^verbatim>\<open>int\<close>,
  which raises when the product is an infinity.
\<close>

definition anim_length :: "clips \<Rightarrow> py_error + int" where
  "anim_length cs =
     (case scan_clips (Fin 0) cs of
        Inl e \<Rightarrow> Inl e
      | Inr m \<Rightarrow>
          (case py_int (fmul m (Fin 30)) of
             Inl e \<Rightarrow> Inl e
           | Inr n \<Rightarrow> Inr (n + 10)))"

subsection \<open>Conversion of one keyframe\<close>

text \<open>
  The body of the \<^verbatim>\<open>try\<close> block for one translate keyframe and for one rotate
  keyframe, up to the host assignments; the same in both files.  \<open>frame_index\<close> is
  \<^verbatim>\<open>time = int(float(frame.get("time", 0)) * 30)\<close>.
\<close>

definition frame_index :: "frame \<Rightarrow> py_error + int" where
  "frame_index f =
     (case get_float (f_time f) of
        Inl e \<Rightarrow> Inl e
      | Inr t \<Rightarrow> py_int (fmul t (Fin 30)))"

definition translate_key :: "frame \<Rightarrow> py_error + (int \<times> pyfloat \<times> pyfloat)" where
  "translate_key f =
     (case frame_index f of
        Inl e \<Rightarrow> Inl e
      | Inr time \<Rightarrow>
          (case get_float (f_x f) of
             Inl e \<Rightarrow> Inl e
           | Inr x \<Rightarrow>
               (case get_float (f_y f) of
                  Inl e \<Rightarrow> Inl e
                | Inr y \<Rightarrow> Inr (time, fmul x lit_0_01, fmul (fneg y) lit_0_01))))"

definition rotate_key :: "(pyfloat \<Rightarrow> pyfloat) \<Rightarrow> frame \<Rightarrow> py_error + (int \<times> pyfloat)" where
  "rotate_key rad_to_deg f =
     (case frame_index f of
        Inl e \<Rightarrow> Inl e
      | Inr time \<Rightarrow>
          (case get_float (f_angle f) of
             Inl e \<Rightarrow> Inl e
           | Inr a \<Rightarrow> Inr (time, rad_to_deg a)))"

text \<open>
  The loop over one track.  A keyframe whose conversion raises is reported and skipped;
  the exception is raised before the slider is moved.
\<close>

fun bake_translate :: "log_entry \<Rightarrow> ustring \<Rightarrow> frame list \<Rightarrow> host \<Rightarrow> host" where
  "bake_translate err b [] h = h"
| "bake_translate err b (f # fs) h =
     (case translate_key f of
        Inl e \<Rightarrow> bake_translate err b fs (debug_print err h)
      | Inr (t, x, y) \<Rightarrow>
          bake_translate err b fs
            (h\<lparr>sliderTime := t, baked := baked h @ [PosKey b t (x, y, Fin 0)]\<rparr>))"

fun bake_rotate :: "log_entry \<Rightarrow> ustring \<Rightarrow> frame list \<Rightarrow> host \<Rightarrow> host" where
  "bake_rotate err b [] h = h"
| "bake_rotate err b (f # fs) h =
     (case rotate_key (radToDeg h) f of
        Inl e \<Rightarrow> bake_rotate err b fs (debug_print err h)
      | Inr (t, a) \<Rightarrow>
          bake_rotate err b fs
            (h\<lparr>sliderTime := t, baked := baked h @ [RotKey b t a]\<rparr>))"

subsection \<open>Finding the animation data\<close>

text \<open>\<^verbatim>\<open>for key in data.keys(): ...\<close>, the same in both files.\<close>

fun scan_keys :: "toplevel \<Rightarrow> ustring list \<Rightarrow> tvalue \<Rightarrow> tvalue \<times> log" where
  "scan_keys data [] a = (a, [])"
| "scan_keys data (k # ks) a =
     (if contains (lit ''anim'') (lower k) \<or> contains (lit ''motion'') (lower k) then
        (let e = (INFO, ''found a possible animation key'', [k]);
             a' = data_get data k
         in if truthy a' then (a', [e])
            else (let (r, lg) = scan_keys data ks a' in (r, e # lg)))
      else scan_keys data ks a)"

text \<open>
  The value of \<open>animations\<close> when the search is over: the value under the key
  \<^verbatim>\<open>animations\<close>, or what the loop over the keys leaves.
\<close>

definition find_animations :: "toplevel \<Rightarrow> tvalue \<times> log" where
  "find_animations data =
     (let a0 = data_get data (lit ''animations'')
      in if truthy a0 then (a0, []) else scan_keys data (map fst data) a0)"

subsection \<open>\<open>import_animation\<close> of \<^verbatim>\<open>spine_importer_improved.py\<close>\<close>

fun bake_bones_improved ::
  "(ustring \<rightharpoonup> 'b) \<Rightarrow> (ustring \<times> bone_anim) list \<Rightarrow> host \<Rightarrow> host" where
  "bake_bones_improved bone_map [] h = h"
| "bake_bones_improved bone_map ((bone_name, ba) # bs) h =
     (let bone_name_str = safe_str_improved (JStr bone_name) in
      if bone_map bone_name_str = None then
        bake_bones_improved bone_map bs
          (debug_print (WARNING, ''animation cannot find bone'', [bone_name_str]) h)
      else
        (let h1 = (case ba_translate ba of
                     None \<Rightarrow> h
                   | Some fs \<Rightarrow>
                       bake_translate (ERROR, ''position keyframe error'', []) bone_name_str fs
                         (debug_print (INFO, ''position animation of'', [bone_name_str]) h));
             h2 = (case ba_rotate ba of
                     None \<Rightarrow> h1
                   | Some fs \<Rightarrow>
                       bake_rotate (ERROR, ''rotation keyframe error'', []) bone_name_str fs
                         (debug_print (INFO, ''rotation animation of'', [bone_name_str]) h1))
         in bake_bones_improved bone_map bs h2))"

fun bake_clips_improved :: "(ustring \<rightharpoonup> 'b) \<Rightarrow> clips \<Rightarrow> host \<Rightarrow> host" where
  "bake_clips_improved bone_map [] h = h"
| "bake_clips_improved bone_map ((anim_name, ad) # cs) h =
     bake_clips_improved bone_map cs
       (debug_print (INFO, ''finished animation'', [anim_name])
         (bake_bones_improved bone_map (bones_of ad)
           (debug_print (INFO, ''importing animation'', [anim_name]) h)))"

text \<open>The handler around the whole function.\<close>

definition animation_failed_improved :: "host \<Rightarrow> host" where
  "animation_failed_improved h =
     debug_print (ERROR, ''detailed error'', [])
       (debug_print (ERROR, ''animation import failed'', []) h)"

definition import_animation_improved :: "toplevel \<Rightarrow> (ustring \<rightharpoonup> 'b) \<Rightarrow> host \<Rightarrow> host" where
  "import_animation_improved data bone_map h0 =
     (let h1 = debug_print (INFO, ''analysing the animation data'', []) h0;
          (animations, lg) = find_animations data;
          h2 = (if truthy (data_get data (lit ''animations'')) then h1
                else debug_prints lg
                       (debug_print (INFO, ''trying other animation keys'', []) h1))
      in if \<not> truthy animations then
           debug_print (WARNING, ''no animation data found'', []) h2
         else
           (case animations of
              VUnsized b \<Rightarrow> animation_failed_improved h2
            | VSized n \<Rightarrow>
                animation_failed_improved (debug_print (INFO, ''number of animations'', []) h2)
            | VClips cs \<Rightarrow>
                (let h3 = debug_print (INFO, ''animation names'', map fst cs)
                            (debug_print (INFO, ''number of animations'', []) h2)
                 in case anim_length cs of
                      Inl e \<Rightarrow> animation_failed_improved h3
                    | Inr n \<Rightarrow>
                        (let h4 = debug_print (INFO, ''animation length in frames'', [])
                                    (h3\<lparr>animationRange := (0, n), sliderTime := 0\<rparr>);
                             h5 = bake_clips_improved bone_map cs h4
                         in debug_print (INFO, ''animation import finished'', [])
                              (h5\<lparr>sliderTime := 0\<rparr>)))))"

subsection \<open>\<open>import_animation\<close> of \<^verbatim>\<open>spine_importer.py\<close>\<close>

fun bake_bones :: "(ustring \<rightharpoonup> 'b) \<Rightarrow> (ustring \<times> bone_anim) list \<Rightarrow> host \<Rightarrow> host" where
  "bake_bones bone_map [] h = h"
| "bake_bones bone_map ((bone_name, ba) # bs) h =
     (let bone_name_str = safe_str (JStr bone_name) in
      if bone_map bone_name_str = None then
        bake_bones bone_map bs
          (debug_print (WARNING, ''animation cannot find bone'', [bone_name_str]) h)
      else
        (let h0 = debug_print (INFO, ''bone animation of'', [bone_name_str]) h;
             h1 = (case ba_translate ba of
                     None \<Rightarrow> h0
                   | Some fs \<Rightarrow>
                       bake_translate (ERROR, ''position keyframe error'', []) bone_name_str fs
                         (debug_print (INFO, ''position animation of'', [bone_name_str]) h0));
             h2 = (case ba_rotate ba of
                     None \<Rightarrow> h1
                   | Some fs \<Rightarrow>
                       bake_rotate (ERROR, ''rotation keyframe error'', []) bone_name_str fs
                         (debug_print (INFO, ''rotation animation of'', [bone_name_str]) h1))
         in bake_bones bone_map bs
              (debug_print (INFO, ''finished bone animation of'', [bone_name_str]) h2)))"

fun bake_clips :: "(ustring \<rightharpoonup> 'b) \<Rightarrow> clips \<Rightarrow> host \<Rightarrow> host" where
  "bake_clips bone_map [] h = h"
| "bake_clips bone_map ((anim_name, ad) # cs) h =
     bake_clips bone_map cs
       (debug_print (INFO, ''finished animation'', [anim_name])
         (bake_bones bone_map (bones_of ad)
           (debug_print (INFO, ''importing animation'', [anim_name]) h)))"

definition animation_failed :: "host \<Rightarrow> host" where
  "animation_failed h =
     debug_print (INFO, ''detailed error'', [])
       (debug_print (ERROR, ''animation import failed'', []) h)"

text \<open>
  The first file prints a message for every clip and every channel while it computes the
  length.  \<open>log_scan\<close> is the listener of that loop: when a \<^verbatim>\<open>float(...)\<close> raises, the
  messages printed up to there stay, the last one being that of the channel with the
  offending keyframe.
\<close>

definition channels :: "bone_anim \<Rightarrow> (ustring \<times> frame list option) list" where
  "channels ba =
     [(lit ''translate'', ba_translate ba), (lit ''rotate'', ba_rotate ba),
      (lit ''scale'', ba_scale ba)]"

fun log_channels :: "(ustring \<times> frame list option) list \<Rightarrow> pyfloat \<Rightarrow> host \<Rightarrow> host" where
  "log_channels [] m h = h"
| "log_channels ((anim_type, None) # xs) m h = log_channels xs m h"
| "log_channels ((anim_type, Some fs) # xs) m h =
     (let h' = debug_print (INFO, ''found channel'', [anim_type]) h in
      case scan_frames m fs of
        Inl e \<Rightarrow> h'
      | Inr m' \<Rightarrow> log_channels xs m' h')"

fun log_bones :: "(ustring \<times> bone_anim) list \<Rightarrow> pyfloat \<Rightarrow> host \<Rightarrow> host" where
  "log_bones [] m h = h"
| "log_bones ((bone_name, ba) # bs) m h =
     (let h' = log_channels (channels ba) m h in
      case scan_bone_anim m ba of
        Inl e \<Rightarrow> h'
      | Inr m' \<Rightarrow> log_bones bs m' h')"

fun log_scan :: "clips \<Rightarrow> pyfloat \<Rightarrow> host \<Rightarrow> host" where
  "log_scan [] m h = h"
| "log_scan ((anim_name, ad) # cs) m h =
     (let h' = log_bones (bones_of ad) m
                 (debug_print (INFO, ''analysing animation'', [anim_name]) h) in
      case scan_bones m (bones_of ad) of
        Inl e \<Rightarrow> h'
      | Inr m' \<Rightarrow> log_scan cs m' h')"

definition import_animation :: "toplevel \<Rightarrow> (ustring \<rightharpoonup> 'b) \<Rightarrow> host \<Rightarrow> host" where
  "import_animation data bone_map h0 =
     (let h1 = debug_print (INFO, ''data keys'', map fst data)
                 (debug_print (INFO, ''analysing the animation data'', []) h0);
          (animations, lg) = find_animations data;
          h2 = (if truthy (data_get data (lit ''animations'')) then h1
                else debug_prints lg
                       (debug_print (INFO, ''trying other animation keys'', [])
                         (debug_print (WARNING, ''no animation data found'', []) h1)))
      in if \<not> truthy animations then
           debug_print (INFO, ''data preview'', [])
             (debug_print (INFO, ''printing the data structure'', [])
               (debug_print (ERROR, ''still no animation data found'', []) h2))
         else
           (case animations of
              VUnsized b \<Rightarrow> animation_failed h2
            | VSized n \<Rightarrow>
                animation_failed (debug_print (INFO, ''number of animations'', []) h2)
            | VClips cs \<Rightarrow>
                (let h3 = debug_print (INFO, ''structure of the first animation'', [])
                            (debug_print (INFO, ''animation names'', map fst cs)
                              (debug_print (INFO, ''number of animations'', []) h2));
                     h4 = (case cs of
                             [] \<Rightarrow> h3
                           | (first_name, first_anim) # rest \<Rightarrow>
                               (case ad_bones first_anim of
                                  None \<Rightarrow> h3
                                | Some bs \<Rightarrow>
                                    debug_print (INFO, ''bone animation keys'', map fst bs) h3))
                 in case anim_length cs of
                      Inl e \<Rightarrow> animation_failed (log_scan cs (Fin 0) h4)
                    | Inr n \<Rightarrow>
                        (let h5 = debug_print (INFO, ''number of keyframes'', [])
                                    (debug_print (INFO, ''animation length in frames'', [])
                                      ((log_scan cs (Fin 0) h4)\<lparr>animationRange := (0, n), sliderTime := 0\<rparr>));
                             h6 = bake_clips bone_map cs h5
                         in debug_print (INFO, ''animation import finished'', [])
                              (h6\<lparr>sliderTime := 0\<rparr>)))))"

section \<open>The skeleton\<close>

text \<open>
  A bone object of the document.  A text field is \<open>None\<close> when its key is absent.
\<close>

record bone_rec =
  b_name :: "jstr option"
  b_x :: "jnum option"
  b_y :: "jnum option"
  b_length :: "jnum option"
  b_rotation :: "jnum option"
  b_parent :: "jstr option"

text \<open>
  The bone node made by \<^verbatim>\<open>rt.BoneSys.createBone\<close>.  The importer keeps the nodes in
  \<open>bone_map\<close> under their names; a parent link \<^verbatim>\<open>bone_map[parent_name]\<close> is kept as
  the key \<open>parent_name\<close>, which names one node because the keys of the map no longer
  change once the second pass runs.
\<close>

record bone_obj =
  bo_name :: ustring
  bo_pos :: "pyfloat \<times> pyfloat \<times> pyfloat"
  bo_end :: "pyfloat \<times> pyfloat \<times> pyfloat"
  bo_width :: pyfloat
  bo_height :: pyfloat
  bo_rotation :: "pyfloat option"
  bo_parent :: "ustring option"

type_synonym bone_map = "ustring \<rightharpoonup> bone_obj"

definition new_bone :: "ustring \<Rightarrow> pyfloat \<Rightarrow> pyfloat \<Rightarrow> pyfloat \<Rightarrow> bone_obj" where
  "new_bone bone_name pos_x pos_y bone_length =
     \<lparr>bo_name = bone_name, bo_pos = (pos_x, pos_y, Fin 0),
      bo_end = (pos_x, fsub pos_y bone_length, Fin 0),
      bo_width = fmul bone_length lit_0_3, bo_height = fmul bone_length lit_0_3,
      bo_rotation = None, bo_parent = None\<rparr>"

text \<open>
  \<open>pos_x\<close>, \<open>pos_y\<close> and \<open>bone_length\<close>, computed before the node is created; the same in
  both files.
\<close>

definition bone_geometry ::
  "pyfloat \<Rightarrow> bone_rec \<Rightarrow> py_error + (pyfloat \<times> pyfloat \<times> pyfloat)" where
  "bone_geometry scale bone =
     (case get_float (b_x bone) of
        Inl e \<Rightarrow> Inl e
      | Inr x \<Rightarrow>
          (case get_float (b_y bone) of
             Inl e \<Rightarrow> Inl e
           | Inr y \<Rightarrow>
               (case get_float_or (Fin 1) (b_length bone) of
                  Inl e \<Rightarrow> Inl e
                | Inr l \<Rightarrow>
                    Inr (fmul x scale, fmul (fneg y) scale, fmul (py_max lit_0_1 l) scale))))"

text \<open>\<^verbatim>\<open>bone.get('name', 'unknown')\<close> as printed by the handlers.\<close>

definition shown_name :: "bone_rec \<Rightarrow> ustring" where
  "shown_name bone =
     (case b_name bone of
        None \<Rightarrow> lit ''unknown''
      | Some JNull \<Rightarrow> lit ''None''
      | Some (JStr s) \<Rightarrow> s)"

subsection \<open>\<open>create_bones\<close> of \<^verbatim>\<open>spine_importer.py\<close>\<close>

text \<open>
  One round of the first loop.  \<^verbatim>\<open>bone["name"]\<close> raises \<^verbatim>\<open>KeyError\<close> when the key is
  absent; every exception of the round is caught and reported.  A rotation that is not a
  number raises after the node exists, so the node stays in the scene but not in the map.
\<close>

definition create_bone ::
  "pyfloat \<Rightarrow> bone_rec \<Rightarrow> bone_map \<times> host \<Rightarrow> bone_map \<times> host" where
  "create_bone scale bone s =
     (let bone_map = fst s; h = snd s;
          failed = (ERROR, ''bone creation failed'', [shown_name bone])
      in case b_name bone of
           None \<Rightarrow> (bone_map, debug_print failed h)
         | Some nm \<Rightarrow>
             (let bone_name = safe_str nm
              in case bone_geometry scale bone of
                   Inl e \<Rightarrow> (bone_map, debug_print failed h)
                 | Inr (pos_x, pos_y, bone_length) \<Rightarrow>
                     (let h1 = h\<lparr>bone_nodes := bone_nodes h + 1\<rparr>;
                          nb = new_bone bone_name pos_x pos_y bone_length;
                          created = (INFO, ''created bone'', [bone_name])
                      in case b_rotation bone of
                           None \<Rightarrow> (bone_map(bone_name \<mapsto> nb), debug_print created h1)
                         | Some j \<Rightarrow>
                             (case py_float j of
                                Inl e \<Rightarrow> (bone_map, debug_print failed h1)
                              | Inr r \<Rightarrow>
                                  (bone_map(bone_name \<mapsto> nb\<lparr>bo_rotation := Some (radToDeg h r)\<rparr>),
                                   debug_print created
                                     (debug_print (INFO, ''set initial rotation'', [bone_name]) h1))))))"

text \<open>\<^verbatim>\<open>safe_str(bone.get("parent"))\<close>\<close>

definition parent_name_of :: "bone_rec \<Rightarrow> ustring" where
  "parent_name_of bone = safe_str (case b_parent bone of None \<Rightarrow> JNull | Some j \<Rightarrow> j)"

text \<open>One round of the second loop.\<close>

definition set_parent :: "bone_rec \<Rightarrow> bone_map \<times> host \<Rightarrow> bone_map \<times> host" where
  "set_parent bone s =
     (let bone_map = fst s; h = snd s
      in case b_name bone of
           None \<Rightarrow> (bone_map, debug_print (ERROR, ''setting the parent failed'', []) h)
         | Some nm \<Rightarrow>
             (let bone_name = safe_str nm; parent_name = parent_name_of bone
              in if parent_name \<noteq> [] \<and> bone_map parent_name \<noteq> None then
                   (case bone_map bone_name of
                      None \<Rightarrow> (bone_map, h)
                    | Some b \<Rightarrow>
                        (bone_map(bone_name \<mapsto> b\<lparr>bo_parent := Some parent_name\<rparr>),
                         debug_print (INFO, ''set parent'', [bone_name, parent_name]) h))
                 else (bone_map, h)))"

text \<open>
  The document is a JSON object: \<^verbatim>\<open>bones\<close> and \<^verbatim>\<open>slots\<close> are lists of objects when
  present, and \<open>doc_toplevel\<close> holds all its keys in document order, as the animation
  importer and \<^verbatim>\<open>data.keys()\<close> see them.
\<close>

record att_rec =
  att_name :: "ustring option"
  att_width :: "jnum option"
  att_height :: "jnum option"

record slot_rec =
  s_name :: "jstr option"
  s_bone :: "jstr option"
  s_attachment :: "att_rec option"

record document =
  doc_bones :: "bone_rec list option"
  doc_slots :: "slot_rec list option"
  doc_toplevel :: toplevel

text \<open>\<^verbatim>\<open>data.get("bones", [])\<close>\<close>

definition bones_data :: "document \<Rightarrow> bone_rec list" where
  "bones_data data = (case doc_bones data of None \<Rightarrow> [] | Some bs \<Rightarrow> bs)"

definition create_bones :: "document \<Rightarrow> pyfloat \<Rightarrow> host \<Rightarrow> bone_map \<times> host" where
  "create_bones data scale h =
     (let s0 = (Map.empty, debug_print (INFO, ''creating bones'', []) h);
          s1 = fold (create_bone scale) (bones_data data) s0;
          s2 = fold set_parent (bones_data data) s1
      in (fst s2, debug_print (INFO, ''bones and parent links created'', []) (snd s2)))"

subsection \<open>\<open>create_bones\<close> of \<^verbatim>\<open>spine_importer_improved.py\<close>\<close>

text \<open>\<^verbatim>\<open>safe_str(bone.get("name", ""))\<close> and \<^verbatim>\<open>safe_str(bone.get("parent", ""))\<close>\<close>

definition bone_name_improved :: "bone_rec \<Rightarrow> ustring" where
  "bone_name_improved bone =
     safe_str_improved (case b_name bone of None \<Rightarrow> JStr [] | Some j \<Rightarrow> j)"

definition parent_name_improved :: "bone_rec \<Rightarrow> ustring" where
  "parent_name_improved bone =
     safe_str_improved (case b_parent bone of None \<Rightarrow> JStr [] | Some j \<Rightarrow> j)"

text \<open>
  One round of the first loop.  Only a \<^verbatim>\<open>ValueError\<close> of the rotation is caught next
  to it; the bone is then kept without a rotation.
\<close>

definition create_bone_improved ::
  "pyfloat \<Rightarrow> bone_rec \<Rightarrow> bone_map \<times> host \<Rightarrow> bone_map \<times> host" where
  "create_bone_improved scale bone s =
     (let bone_map = fst s; h = snd s;
          failed = (ERROR, ''bone creation failed'', [shown_name bone]);
          bone_name = bone_name_improved bone
      in if bone_name = [] then
           (bone_map, debug_print (WARNING, ''skipping nameless bone'', []) h)
         else
           (case bone_geometry scale bone of
              Inl e \<Rightarrow> (bone_map, debug_print failed h)
            | Inr (pos_x, pos_y, bone_length) \<Rightarrow>
                (let h1 = h\<lparr>bone_nodes := bone_nodes h + 1\<rparr>;
                     nb = new_bone bone_name pos_x pos_y bone_length;
                     created = (INFO, ''created bone'', [bone_name])
                 in case b_rotation bone of
                      None \<Rightarrow> (bone_map(bone_name \<mapsto> nb), debug_print created h1)
                    | Some j \<Rightarrow>
                        (case py_float j of
                           Inl e \<Rightarrow>
                             (if e = ValueError then
                                (bone_map(bone_name \<mapsto> nb),
                                 debug_print created
                                   (debug_print (WARNING, ''rotation value cannot be parsed'', [bone_name]) h1))
                              else (bone_map, debug_print failed h1))
                         | Inr r \<Rightarrow>
                             (bone_map(bone_name \<mapsto> nb\<lparr>bo_rotation := Some (radToDeg h r)\<rparr>),
                              debug_print created
                                (debug_print (INFO, ''set initial rotation'', [bone_name]) h1))))))"

definition set_parent_improved :: "bone_rec \<Rightarrow> bone_map \<times> host \<Rightarrow> bone_map \<times> host" where
  "set_parent_improved bone s =
     (let bone_map = fst s; h = snd s;
          bone_name = bone_name_improved bone; parent_name = parent_name_improved bone
      in if parent_name \<noteq> [] \<and> bone_map parent_name \<noteq> None \<and> bone_map bone_name \<noteq> None then
           (case bone_map bone_name of
              None \<Rightarrow> (bone_map, h)
            | Some b \<Rightarrow>
                (bone_map(bone_name \<mapsto> b\<lparr>bo_parent := Some parent_name\<rparr>),
                 debug_print (INFO, ''set parent'', [bone_name, parent_name]) h))
         else if parent_name \<noteq> [] \<and> bone_map parent_name = None then
           (bone_map, debug_print (WARNING, ''parent bone does not exist'', [parent_name]) h)
         else (bone_map, h))"

definition create_bones_improved ::
  "document \<Rightarrow> pyfloat \<Rightarrow> host \<Rightarrow> bone_map \<times> host" where
  "create_bones_improved data scale h =
     (if bones_data data = [] then
        (Map.empty, debug_print (WARNING, ''no bone data found'', []) h)
      else
        (let s0 = (Map.empty, debug_print (INFO, ''creating bones'', []) h);
             s1 = fold (create_bone_improved scale) (bones_data data) s0;
             s2 = fold set_parent_improved (bones_data data) s1
         in (fst s2, debug_print (INFO, ''bones created'', []) (snd s2))))"

section \<open>The atlas\<close>

text \<open>
  What the importer asks of Python and of the file system: \<^verbatim>\<open>os.path.exists\<close>,
  \<^verbatim>\<open>os.path.join\<close>, reading the lines of a text file (\<open>None\<close> when that raises),
  \<^verbatim>\<open>float\<close> on a string (\<open>None\<close> when that raises \<^verbatim>\<open>ValueError\<close>) and loading a
  JSON document (\<open>None\<close> when that raises).
\<close>

record env =
  path_exists :: "ustring \<Rightarrow> bool"
  path_join :: "ustring \<Rightarrow> ustring \<Rightarrow> ustring"
  read_lines :: "ustring \<Rightarrow> ustring list option"
  float_of_string :: "ustring \<Rightarrow> pyfloat option"
  load_json :: "ustring \<Rightarrow> document option"

text \<open>
  The object made by \<^verbatim>\<open>rt.BitmapTexture(filename=tex_path)\<close>; its rotation is \<open>None\<close>
  until a \<^verbatim>\<open>rotate:\<close> line assigns one.
\<close>

record texture =
  tx_filename :: ustring
  tx_rotation :: "pyfloat option"

type_synonym textures = "ustring \<rightharpoonup> texture"

text \<open>The state of the loop over the lines: \<open>textures\<close>, \<open>current_texture\<close>, the host.\<close>

type_synonym atlas_state = "textures \<times> ustring option \<times> host"

text \<open>\<^verbatim>\<open>... and current_texture\<close>: neither \<^verbatim>\<open>None\<close> nor the empty string.\<close>

fun is_set :: "ustring option \<Rightarrow> bool" where
  "is_set None = False"
| "is_set (Some n) = (n \<noteq> [])"

subsection \<open>\<open>load_textures\<close> of \<^verbatim>\<open>spine_importer.py\<close>\<close>

definition texture_line :: "env \<Rightarrow> ustring \<Rightarrow> ustring \<Rightarrow> atlas_state \<Rightarrow> atlas_state" where
  "texture_line e texture_dir raw s =
     (let textures = fst s; current_texture = fst (snd s); h = snd (snd s);
          line = strip raw
      in if line = [] then s
         else if endswith line (lit ''.png'') then
           (let tex_name = split_first 46 line;
                tex_path = path_join e texture_dir line
            in if path_exists e tex_path then
                 (textures(tex_name \<mapsto> \<lparr>tx_filename = tex_path, tx_rotation = None\<rparr>),
                  Some tex_name,
                  debug_print (INFO, ''loaded texture'', [tex_name])
                    (h\<lparr>bitmaps := bitmaps h + 1\<rparr>))
               else
                 (textures, current_texture,
                  debug_print (WARNING, ''texture file not found'', [tex_path]) h))
         else if startswith line (lit ''rotate:'') \<and> is_set current_texture then
           (case (float_of_string e (split_second 58 line),
                  textures (case current_texture of None \<Rightarrow> [] | Some c \<Rightarrow> c)) of
              (Some r, Some t) \<Rightarrow>
                (textures((case current_texture of None \<Rightarrow> [] | Some c \<Rightarrow> c)
                   \<mapsto> t\<lparr>tx_rotation := Some r\<rparr>),
                 current_texture,
                 debug_print (INFO, ''set texture rotation'',
                   [case current_texture of None \<Rightarrow> [] | Some c \<Rightarrow> c]) h)
            | _ \<Rightarrow>
                (textures, current_texture,
                 debug_print (WARNING, ''cannot parse rotation value'', [line]) h))
         else s)"

definition load_textures :: "env \<Rightarrow> ustring \<Rightarrow> ustring \<Rightarrow> host \<Rightarrow> textures \<times> host" where
  "load_textures e atlas_path texture_dir h =
     (if \<not> path_exists e atlas_path then
        (Map.empty, debug_print (ERROR, ''atlas file not found'', [atlas_path]) h)
      else
        (let h1 = debug_print (INFO, ''reading atlas file'', [atlas_path]) h
         in case read_lines e atlas_path of
              None \<Rightarrow> (Map.empty, debug_print (ERROR, ''loading textures failed'', []) h1)
            | Some lines \<Rightarrow>
                (let s = fold (texture_line e texture_dir) lines (Map.empty, None, h1)
                 in (fst s, debug_print (INFO, ''textures loaded'', []) (snd (snd s))))))"

subsection \<open>\<open>load_textures\<close> of \<^verbatim>\<open>spine_importer_improved.py\<close>\<close>

text \<open>\<open>validate_file_path\<close> returns whether the path is usable and the error message.\<close>

definition validate_file_path ::
  "env \<Rightarrow> ustring \<Rightarrow> ustring \<Rightarrow> bool \<times> string \<times> ustring list" where
  "validate_file_path e file_path file_type =
     (if file_path = [] then (False, ''path is empty'', [file_type])
      else if \<not> path_exists e file_path then (False, ''does not exist'', [file_type, file_path])
      else (True, [], []))"

text \<open>
  A name that is already in \<open>textures\<close> is skipped with a message at the default level;
  \<open>current_texture\<close> stays what it was.  A missing entry for \<open>current_texture\<close> would
  raise \<^verbatim>\<open>KeyError\<close>, which only the handler of the round catches.
\<close>

definition texture_line_improved ::
  "env \<Rightarrow> ustring \<Rightarrow> ustring \<Rightarrow> atlas_state \<Rightarrow> atlas_state" where
  "texture_line_improved e texture_dir raw s =
     (let textures = fst s; current_texture = fst (snd s); h = snd (snd s);
          line = strip raw
      in if line = [] then s
         else if endswith line (lit ''.png'') then
           (let tex_name = split_first 46 line;
                tex_path = path_join e texture_dir line
            in if path_exists e tex_path then
                 (if textures tex_name = None then
                    (textures(tex_name \<mapsto> \<lparr>tx_filename = tex_path, tx_rotation = None\<rparr>),
                     Some tex_name,
                     debug_print (INFO, ''loaded texture'', [tex_name])
                       (h\<lparr>bitmaps := bitmaps h + 1\<rparr>))
                  else
                    (textures, current_texture,
                     debug_print (INFO, ''texture already exists, skipping'', [tex_name]) h))
               else
                 (textures, current_texture,
                  debug_print (WARNING, ''texture file not found'', [tex_path]) h))
         else if startswith line (lit ''rotate:'') \<and> is_set current_texture then
           (case float_of_string e (split_second 58 line) of
              None \<Rightarrow>
                (textures, current_texture,
                 debug_print (WARNING, ''cannot parse rotation value'', [line]) h)
            | Some r \<Rightarrow>
                (case textures (case current_texture of None \<Rightarrow> [] | Some c \<Rightarrow> c) of
                   None \<Rightarrow>
                     (textures, current_texture,
                      debug_print (ERROR, ''error in atlas line'', []) h)
                 | Some t \<Rightarrow>
                     (textures((case current_texture of None \<Rightarrow> [] | Some c \<Rightarrow> c)
                        \<mapsto> t\<lparr>tx_rotation := Some r\<rparr>),
                      current_texture,
                      debug_print (INFO, ''set texture rotation'',
                        [case current_texture of None \<Rightarrow> [] | Some c \<Rightarrow> c]) h)))
         else s)"

definition load_textures_improved ::
  "env \<Rightarrow> ustring \<Rightarrow> ustring \<Rightarrow> host \<Rightarrow> textures \<times> host" where
  "load_textures_improved e atlas_path texture_dir h =
     (case validate_file_path e atlas_path (lit ''atlas file'') of
        (False, error_msg) \<Rightarrow> (Map.empty, debug_print (ERROR, error_msg) h)
      | (True, ok) \<Rightarrow>
          (case validate_file_path e texture_dir (lit ''texture directory'') of
             (False, error_msg) \<Rightarrow> (Map.empty, debug_print (ERROR, error_msg) h)
           | (True, ok') \<Rightarrow>
               (case read_lines e atlas_path of
                  None \<Rightarrow>
                    (Map.empty,
                     debug_print (ERROR, ''detailed error'', [])
                       (debug_print (ERROR, ''loading textures failed'', []) h))
                | Some lines \<Rightarrow>
                    (let s = fold (texture_line_improved e texture_dir) lines (Map.empty, None, h)
                     in (fst s, debug_print (INFO, ''textures loaded'', []) (snd (snd s)))))))"

section \<open>The meshes\<close>

text \<open>\<^verbatim>\<open>data.get("slots", [])\<close>\<close>

definition slots_data :: "document \<Rightarrow> slot_rec list" where
  "slots_data data = (case doc_slots data of None \<Rightarrow> [] | Some ss \<Rightarrow> ss)"

text \<open>The plane as \<^verbatim>\<open>rt.Plane(length=1, width=1)\<close> makes it, named and parented.\<close>

definition new_plane :: "ustring \<Rightarrow> ustring \<Rightarrow> plane" where
  "new_plane slot_name bone_name =
     \<lparr>pl_name = lit ''Mesh_'' @ slot_name, pl_parent = bone_name, pl_material = None,
      pl_width = Fin 1, pl_length = Fin 1\<rparr>"

subsection \<open>\<open>create_meshes\<close> of \<^verbatim>\<open>spine_importer.py\<close>\<close>

text \<open>
  What follows the creation of the plane in one round: the plane as the round leaves it,
  the messages, and whether the round raised.  The width is assigned before the height is
  converted.
\<close>

definition dress_plane ::
  "textures \<Rightarrow> ustring \<Rightarrow> att_rec option \<Rightarrow> plane \<Rightarrow> plane \<times> log \<times> bool" where
  "dress_plane textures slot_name attachment pl =
     (case (case attachment of None \<Rightarrow> None | Some a \<Rightarrow> att_name a) of
        None \<Rightarrow> (pl, [(INFO, ''no attachment data'', [slot_name])], False)
      | Some nm \<Rightarrow>
          (let tex_name = split_first 46 nm;
               a = (case attachment of None \<Rightarrow> \<lparr>att_name = None, att_width = None, att_height = None\<rparr>
                    | Some a \<Rightarrow> a)
           in if textures tex_name = None then
                (pl, [(WARNING, ''texture not found for slot'', [slot_name, tex_name])], False)
              else
                (let pl1 = pl\<lparr>pl_material := Some tex_name\<rparr>;
                     applied = (INFO, ''applied texture'', [slot_name, tex_name])
                 in case (att_width a, att_height a) of
                      (Some w, Some hh) \<Rightarrow>
                        (case py_float w of
                           Inl err \<Rightarrow> (pl1, [], True)
                         | Inr wv \<Rightarrow>
                             (case py_float hh of
                                Inl err \<Rightarrow> (pl1\<lparr>pl_width := fmul wv lit_0_01\<rparr>, [], True)
                              | Inr hv \<Rightarrow>
                                  (pl1\<lparr>pl_width := fmul wv lit_0_01, pl_length := fmul hv lit_0_01\<rparr>,
                                   [(INFO, ''set mesh size'', [slot_name]), applied], False)))
                    | _ \<Rightarrow> (pl1, [applied], False))))"

definition shown_slot :: "slot_rec \<Rightarrow> ustring" where
  "shown_slot slot =
     (case s_name slot of
        None \<Rightarrow> lit ''unknown''
      | Some JNull \<Rightarrow> lit ''None''
      | Some (JStr s) \<Rightarrow> s)"

definition create_mesh :: "bone_map \<Rightarrow> textures \<Rightarrow> slot_rec \<Rightarrow> host \<Rightarrow> host" where
  "create_mesh bone_map textures slot h =
     (let failed = (ERROR, ''mesh creation failed'', [shown_slot slot])
      in case (s_name slot, s_bone slot) of
           (Some sn, Some bn) \<Rightarrow>
             (let slot_name = safe_str sn; bone_name = safe_str bn
              in if bone_map bone_name = None then
                   debug_print (WARNING, ''bone not found for slot'', [slot_name, bone_name]) h
                 else
                   (case dress_plane textures slot_name (s_attachment slot)
                           (new_plane slot_name bone_name) of
                      (pl, msgs, raised) \<Rightarrow>
                        (let h1 = debug_prints msgs (h\<lparr>planes := planes h @ [pl]\<rparr>)
                         in if raised then debug_print failed h1 else h1)))
         | _ \<Rightarrow> debug_print failed h)"

definition create_meshes :: "document \<Rightarrow> bone_map \<Rightarrow> textures \<Rightarrow> host \<Rightarrow> host" where
  "create_meshes data bone_map textures h =
     debug_print (INFO, ''meshes created'', [])
       (fold (create_mesh bone_map textures) (slots_data data)
         (debug_print (INFO, ''creating meshes'', []) h))"

subsection \<open>\<open>create_meshes\<close> of \<^verbatim>\<open>spine_importer_improved.py\<close>\<close>

text \<open>
  Both sizes are converted before either is assigned; a \<^verbatim>\<open>ValueError\<close> is caught next
  to the conversion, any other exception by the handler of the round.
\<close>

definition dress_plane_improved ::
  "textures \<Rightarrow> ustring \<Rightarrow> att_rec option \<Rightarrow> plane \<Rightarrow> plane \<times> log \<times> bool" where
  "dress_plane_improved textures slot_name attachment pl =
     (case (case attachment of None \<Rightarrow> None | Some a \<Rightarrow> att_name a) of
        None \<Rightarrow> (pl, [(WARNING, ''no attachment data'', [slot_name])], False)
      | Some nm \<Rightarrow>
          (let tex_name = split_first 46 nm;
               a = (case attachment of None \<Rightarrow> \<lparr>att_name = None, att_width = None, att_height = None\<rparr>
                    | Some a \<Rightarrow> a)
           in if textures tex_name = None then
                (pl, [(WARNING, ''texture not found for slot'', [slot_name, tex_name])], False)
              else
                (let pl1 = pl\<lparr>pl_material := Some tex_name\<rparr>;
                     applied = (INFO, ''applied texture'', [slot_name, tex_name]);
                     unparsed = (WARNING, ''size value cannot be parsed'', [slot_name])
                 in case (att_width a, att_height a) of
                      (Some w, Some hh) \<Rightarrow>
                        (case py_float w of
                           Inl err \<Rightarrow>
                             (if err = ValueError then (pl1, [unparsed, applied], False)
                              else (pl1, [], True))
                         | Inr wv \<Rightarrow>
                             (case py_float hh of
                                Inl err \<Rightarrow>
                                  (if err = ValueError then (pl1, [unparsed, applied], False)
                                   else (pl1, [], True))
                              | Inr hv \<Rightarrow>
                                  (pl1\<lparr>pl_width := fmul wv lit_0_01, pl_length := fmul hv lit_0_01\<rparr>,
                                   [(INFO, ''set mesh size'', [slot_name]), applied], False)))
                    | _ \<Rightarrow> (pl1, [applied], False))))"

definition create_mesh_improved :: "bone_map \<Rightarrow> textures \<Rightarrow> slot_rec \<Rightarrow> host \<Rightarrow> host" where
  "create_mesh_improved bone_map textures slot h =
     (let slot_name = safe_str_improved (case s_name slot of None \<Rightarrow> JStr [] | Some j \<Rightarrow> j);
          bone_name = safe_str_improved (case s_bone slot of None \<Rightarrow> JStr [] | Some j \<Rightarrow> j)
      in if slot_name = [] then debug_print (WARNING, ''skipping nameless slot'', []) h
         else if bone_map bone_name = None then
           debug_print (WARNING, ''bone not found for slot'', [slot_name, bone_name]) h
         else
           (case dress_plane_improved textures slot_name (s_attachment slot)
                   (new_plane slot_name bone_name) of
              (pl, msgs, raised) \<Rightarrow>
                (let h1 = debug_prints msgs (h\<lparr>planes := planes h @ [pl]\<rparr>)
                 in if raised
                    then debug_print (ERROR, ''mesh creation failed'', [shown_slot slot]) h1
                    else h1)))"

definition create_meshes_improved :: "document \<Rightarrow> bone_map \<Rightarrow> textures \<Rightarrow> host \<Rightarrow> host" where
  "create_meshes_improved data bone_map textures h =
     (if slots_data data = [] then debug_print (WARNING, ''no slot data found'', []) h
      else
        debug_print (INFO, ''meshes created'', [])
          (fold (create_mesh_improved bone_map textures) (slots_data data)
            (debug_print (INFO, ''creating meshes'', []) h)))"

section \<open>The entry point\<close>

text \<open>
  \<open>import_spine\<close> returns a message; everything else it does is done to the host.  The
  numbers of bones and textures that the success message quotes are left out.  The
  handler around the whole function is reached when loading the JSON file raises: the
  document is a JSON object, the component functions catch what their loops raise, and
  host calls are taken to succeed.
\<close>

type_synonym message = "string \<times> ustring list"

text \<open>\<^verbatim>\<open>if bone_map: rt.select(list(bone_map.values())); rt.zoomExtents()\<close>\<close>

definition select_bones :: "bone_map \<Rightarrow> host \<Rightarrow> host" where
  "select_bones bone_map h = (if bone_map = Map.empty then h else h\<lparr>selection := dom bone_map\<rparr>)"

subsection \<open>\<open>import_spine\<close> of \<^verbatim>\<open>spine_importer.py\<close>\<close>

definition import_components ::
  "env \<Rightarrow> document \<Rightarrow> ustring \<Rightarrow> ustring \<Rightarrow> pyfloat \<Rightarrow> host \<Rightarrow> message \<times> host" where
  "import_components e data atlas_path texture_dir scale h =
     (let (textures, h1) = load_textures e atlas_path texture_dir
                             (debug_print (INFO, ''loading textures'', []) h);
          (bone_map, h2) = create_bones data scale (debug_print (INFO, ''creating bones'', []) h1);
          h3 = create_meshes data bone_map textures (debug_print (INFO, ''creating meshes'', []) h2);
          h4 = h3\<lparr>sliderTime := 0, animationRange := (0, 100)\<rparr>;
          h5 = import_animation (doc_toplevel data) bone_map
                 (debug_print (INFO, ''importing animation'', []) h4);
          h6 = (if bone_map = Map.empty then h5
                else debug_print (INFO, ''zoomed to the imported objects'', [])
                       (select_bones bone_map h5))
      in ((''import succeeded'', []), debug_print (INFO, ''import succeeded'', []) h6))"

definition import_spine ::
  "env \<Rightarrow> ustring \<Rightarrow> ustring \<Rightarrow> ustring \<Rightarrow> pyfloat \<Rightarrow> host \<Rightarrow> message \<times> host" where
  "import_spine e json_path atlas_path texture_dir scale h =
     (let h0 = debug_print (INFO, ''starting the import'', []) h
      in if \<not> path_exists e json_path then
           ((''JSON file not found'', [json_path]),
            debug_print (ERROR, ''JSON file not found'', [json_path]) h0)
         else if \<not> path_exists e atlas_path then
           ((''atlas file not found'', [atlas_path]),
            debug_print (ERROR, ''atlas file not found'', [atlas_path]) h0)
         else if \<not> path_exists e texture_dir then
           ((''texture directory not found'', [texture_dir]),
            debug_print (ERROR, ''texture directory not found'', [texture_dir]) h0)
         else
           (let h1 = debug_print (INFO, ''loading the JSON data'', []) h0
            in case load_json e json_path of
                 None \<Rightarrow>
                   ((''import failed'', []),
                    debug_print (INFO, ''detailed error'', [])
                      (debug_print (ERROR, ''import failed'', []) h1))
               | Some data \<Rightarrow>
                   import_components e data atlas_path texture_dir scale
                     (debug_print (INFO, ''data contains'', map fst (doc_toplevel data))
                       (debug_print (INFO, ''JSON data loaded'', []) h1))))"

subsection \<open>\<open>import_spine\<close> of \<^verbatim>\<open>spine_importer_improved.py\<close>\<close>

definition import_components_improved ::
  "env \<Rightarrow> document \<Rightarrow> ustring \<Rightarrow> ustring \<Rightarrow> pyfloat \<Rightarrow> host \<Rightarrow> message \<times> host" where
  "import_components_improved e data atlas_path texture_dir scale h =
     (let (textures, h1) = load_textures_improved e atlas_path texture_dir
                             (debug_print (INFO, ''loading textures'', []) h);
          (bone_map, h2) = create_bones_improved data scale
                             (debug_print (INFO, ''creating bones'', []) h1);
          h3 = create_meshes_improved data bone_map textures
                 (debug_print (INFO, ''creating meshes'', []) h2);
          h4 = h3\<lparr>sliderTime := 0, animationRange := (0, 100)\<rparr>;
          h5 = import_animation_improved (doc_toplevel data) bone_map
                 (debug_print (INFO, ''importing animation'', []) h4);
          h6 = select_bones bone_map h5
      in ((''import succeeded'', []), debug_print (INFO, ''import finished'', []) h6))"

definition import_spine_improved ::
  "env \<Rightarrow> ustring \<Rightarrow> ustring \<Rightarrow> ustring \<Rightarrow> pyfloat \<Rightarrow> host \<Rightarrow> message \<times> host" where
  "import_spine_improved e json_path atlas_path texture_dir scale h =
     (let h0 = debug_print (INFO, ''starting the import'', []) h
      in case validate_file_path e json_path (lit ''JSON file'') of
           (False, error_msg) \<Rightarrow> (error_msg, h0)
         | (True, ok) \<Rightarrow>
             (case validate_file_path e atlas_path (lit ''atlas file'') of
                (False, error_msg) \<Rightarrow> (error_msg, h0)
              | (True, ok') \<Rightarrow>
                  (case validate_file_path e texture_dir (lit ''texture directory'') of
                     (False, error_msg) \<Rightarrow> (error_msg, h0)
                   | (True, ok'') \<Rightarrow>
                       (case load_json e json_path of
                          None \<Rightarrow> ((''reading the JSON file failed'', []), h0)
                        | Some data \<Rightarrow>
                            import_components_improved e data atlas_path texture_dir scale
                              (debug_print (INFO, ''JSON data loaded'', []) h0)))))"

section \<open>Vocabulary of the specification\<close>

text \<open>
  Every keyframe of every channel of every bone of every clip, the time of a keyframe
  (0 when the key \<^verbatim>\<open>time\<close> is absent), and the largest of 0 and all these times.  A
  field is a finite number when \<^verbatim>\<open>float\<close> makes a finite float of it.
\<close>

definition frames_of :: "bone_anim \<Rightarrow> frame list" where
  "frames_of ba =
     concat (map (\<lambda>ch. case ch of None \<Rightarrow> [] | Some fs \<Rightarrow> fs)
       [ba_translate ba, ba_rotate ba, ba_scale ba])"

definition all_frames :: "clips \<Rightarrow> frame list" where
  "all_frames cs = concat (map (\<lambda>(n, ad). concat (map (\<lambda>(b, ba). frames_of ba) (bones_of ad))) cs)"

definition finite_number :: "jnum option \<Rightarrow> bool" where
  "finite_number j = (case get_float j of Inr (Fin r) \<Rightarrow> True | _ \<Rightarrow> False)"

definition time_seconds :: "frame \<Rightarrow> real" where
  "time_seconds f = (case get_float (f_time f) of Inr (Fin r) \<Rightarrow> r | _ \<Rightarrow> 0)"

definition max_time :: "clips \<Rightarrow> real" where
  "max_time cs = Max (insert 0 (time_seconds ` set (all_frames cs)))"

text \<open>The keys that one keyframe contributes to a track of bone \<open>b\<close>.\<close>

definition pos_keys :: "ustring \<Rightarrow> frame \<Rightarrow> baked_key list" where
  "pos_keys b f =
     (case translate_key f of Inl e \<Rightarrow> [] | Inr (i, x, y) \<Rightarrow> [PosKey b i (x, y, Fin 0)])"

definition rot_keys :: "(pyfloat \<Rightarrow> pyfloat) \<Rightarrow> ustring \<Rightarrow> frame \<Rightarrow> baked_key list" where
  "rot_keys rad_to_deg b f =
     (case rotate_key rad_to_deg f of Inl e \<Rightarrow> [] | Inr (i, a) \<Rightarrow> [RotKey b i a])"

text \<open>
  The keys of a bone's tracks, translate before rotate, and the keys of a mapping of clips:
  those of the bones that are in the bone map, clip by clip and bone by bone.  The two
  files differ in how they clean the bone name.
\<close>

definition track_keys :: "(pyfloat \<Rightarrow> pyfloat) \<Rightarrow> ustring \<Rightarrow> bone_anim \<Rightarrow> baked_key list" where
  "track_keys rad_to_deg b ba =
     concat (map (pos_keys b) (case ba_translate ba of None \<Rightarrow> [] | Some fs \<Rightarrow> fs))
     @ concat (map (rot_keys rad_to_deg b) (case ba_rotate ba of None \<Rightarrow> [] | Some fs \<Rightarrow> fs))"

definition clip_keys ::
  "(jstr \<Rightarrow> ustring) \<Rightarrow> (pyfloat \<Rightarrow> pyfloat) \<Rightarrow> (ustring \<rightharpoonup> 'b) \<Rightarrow> clips \<Rightarrow> baked_key list" where
  "clip_keys clean rad_to_deg bone_map cs =
     concat (map (\<lambda>(n, ad).
       concat (map (\<lambda>(b, ba).
         if bone_map (clean (JStr b)) = None then []
         else track_keys rad_to_deg (clean (JStr b)) ba) (bones_of ad))) cs)"

subsection \<open>The parent graph\<close>

text \<open>
  No dangling parent: every parent named by a bone of the map is a key of the map.  The
  parent graph has an edge from a bone to its parent.
\<close>

definition parents_in_map :: "bone_map \<Rightarrow> bool" where
  "parents_in_map bm = (\<forall>n b p. bm n = Some b \<and> bo_parent b = Some p \<longrightarrow> bm p \<noteq> None)"

definition parent_rel :: "bone_map \<Rightarrow> (ustring \<times> ustring) set" where
  "parent_rel bm = {(n, p). \<exists>b. bm n = Some b \<and> bo_parent b = Some p}"

text \<open>
  What a bone object declares to the second loop: its own key and the key of its parent.
  The first file declares nothing when the name is absent (the round raises).
\<close>

definition declares :: "bone_rec \<Rightarrow> (ustring \<times> ustring) option" where
  "declares bone =
     (case b_name bone of None \<Rightarrow> None | Some nm \<Rightarrow> Some (safe_str nm, parent_name_of bone))"

definition declares_improved :: "bone_rec \<Rightarrow> (ustring \<times> ustring) option" where
  "declares_improved bone = Some (bone_name_improved bone, parent_name_improved bone)"

text \<open>
  The effect of one declaration on the map, and the parent that a list of declarations
  leaves a bone with: the parent of the last declaration for that bone whose parent is
  non-empty and a key of the map.
\<close>

definition apply_decl :: "(ustring \<times> ustring) option \<Rightarrow> bone_map \<Rightarrow> bone_map" where
  "apply_decl d bm =
     (case d of
        None \<Rightarrow> bm
      | Some (n, p) \<Rightarrow>
          (if p \<noteq> [] \<and> bm p \<noteq> None then
             (case bm n of None \<Rightarrow> bm | Some b \<Rightarrow> bm(n \<mapsto> b\<lparr>bo_parent := Some p\<rparr>))
           else bm))"

definition resolvable :: "bone_map \<Rightarrow> ustring \<Rightarrow> (ustring \<times> ustring) option \<Rightarrow> bool" where
  "resolvable bm n d = (case d of None \<Rightarrow> False | Some (m, p) \<Rightarrow> m = n \<and> p \<noteq> [] \<and> bm p \<noteq> None)"

definition resolved_parent ::
  "bone_map \<Rightarrow> (ustring \<times> ustring) option list \<Rightarrow> ustring \<Rightarrow> ustring option" where
  "resolved_parent bm ds n =
     (let xs = filter (resolvable bm n) ds
      in if xs = [] then None else map_option snd (last xs))"

text \<open>
  The parent links that a document declares: a declaration with an empty parent name
  declares none.
\<close>

definition declared_links :: "(ustring \<times> ustring) option list \<Rightarrow> (ustring \<times> ustring) set" where
  "declared_links ds = {(n, p). Some (n, p) \<in> set ds \<and> p \<noteq> []}"

text \<open>Every bone of the map is a root.\<close>

definition all_roots :: "bone_map \<Rightarrow> bool" where
  "all_roots bm = (\<forall>n b. bm n = Some b \<longrightarrow> bo_parent b = None)"

text \<open>
  Everything that \<open>create_bones\<close> can print above the default level.  The first file
  reports a bone that could not be created and a round of the second loop that raised
  (a record without a name).  The improved file reports missing bone data, a nameless
  bone, a bone that could not be created, a rotation that is not a number, and a parent
  that is not in the map \<open>bm\<close>.  Neither list has a message about a cycle.
\<close>

definition bone_report :: "log_entry \<Rightarrow> bool" where
  "bone_report e =
     (case e of (lvl, msg, args) \<Rightarrow>
        (lvl = ERROR \<and> msg = ''bone creation failed'' \<and> length args = 1)
        \<or> (lvl = ERROR \<and> msg = ''setting the parent failed'' \<and> args = []))"

definition bone_report_improved :: "bone_map \<Rightarrow> log_entry \<Rightarrow> bool" where
  "bone_report_improved bm e =
     (case e of (lvl, msg, args) \<Rightarrow>
        (lvl = WARNING \<and> msg = ''no bone data found'' \<and> args = [])
        \<or> (lvl = WARNING \<and> msg = ''skipping nameless bone'' \<and> args = [])
        \<or> (lvl = ERROR \<and> msg = ''bone creation failed'' \<and> length args = 1)
        \<or> (lvl = WARNING \<and> msg = ''rotation value cannot be parsed'' \<and> length args = 1)
        \<or> (lvl = WARNING \<and> msg = ''parent bone does not exist''
            \<and> (case args of [p] \<Rightarrow> bm p = None | _ \<Rightarrow> False)))"

text \<open>What a call has added to the listener that was there before it.\<close>

definition printed :: "host \<Rightarrow> host \<Rightarrow> log" where
  "printed h h' = drop (length (listener h)) (listener h')"

subsection \<open>The fallback source\<close>

text \<open>
  A key names animation data when its lower-case form contains \<^verbatim>\<open>anim\<close> or
  \<^verbatim>\<open>motion\<close>; the fallback key is the first such key whose value is non-empty.
\<close>

definition names_animation :: "ustring \<Rightarrow> bool" where
  "names_animation k = (contains (lit ''anim'') (lower k) \<or> contains (lit ''motion'') (lower k))"

definition fallback_key :: "toplevel \<Rightarrow> ustring option" where
  "fallback_key data =
     find (\<lambda>k. names_animation k \<and> truthy (data_get data k)) (map fst data)"

subsection \<open>Example documents\<close>

text \<open>
  A keyframe with integer fields, a keyframe that has only a time, a document with one
  clip that has one translate track on the bone \<^verbatim>\<open>root\<close>, and scenario B of the
  specification.
\<close>

definition kf :: "int \<Rightarrow> int \<Rightarrow> int \<Rightarrow> frame" where
  "kf t x y = \<lparr>f_time = Some (JInt t), f_x = Some (JInt x), f_y = Some (JInt y), f_angle = None\<rparr>"

definition kt :: "jnum \<Rightarrow> frame" where
  "kt t = \<lparr>f_time = Some t, f_x = None, f_y = None, f_angle = None\<rparr>"

definition one_track :: "frame list \<Rightarrow> clips" where
  "one_track fs = [(lit ''test_animation'', \<lparr>ad_bones = Some [(lit ''root'',
      \<lparr>ba_translate = Some fs, ba_rotate = None, ba_scale = None\<rparr>)]\<rparr>)]"

definition scenario_B :: clips where
  "scenario_B = one_track [kf 0 0 0, kf 1 10 0, kf 2 0 0]"

text \<open>
  A host before the import, the range as \<open>import_spine\<close> sets it; as \<^verbatim>\<open>radToDeg\<close> it
  has the product with the double nearest to \<open>180 / pi\<close>.  No property below depends on
  that choice.
\<close>

definition host0 :: host where
  "host0 = \<lparr>listener = [], animationRange = (0, 100), sliderTime = 0, bone_nodes = 0,
     bitmaps = 0, planes = [], baked = [], selection = {},
     radToDeg = (\<lambda>a. fmul a (round_double (180 / pi)))\<rparr>"

text \<open>Example skeletons: bones with a name and perhaps a parent, everything else absent.\<close>

definition named_bone :: "string \<Rightarrow> string option \<Rightarrow> bone_rec" where
  "named_bone n p =
     \<lparr>b_name = Some (JStr (lit n)), b_x = None, b_y = None, b_length = None, b_rotation = None,
      b_parent = map_option (\<lambda>s. JStr (lit s)) p\<rparr>"

definition skeleton :: "bone_rec list \<Rightarrow> document" where
  "skeleton bs = \<lparr>doc_bones = Some bs, doc_slots = None,
                  doc_toplevel = [(lit ''bones'', VSized (length bs))]\<rparr>"

definition skeleton_with_slots :: "bone_rec list \<Rightarrow> slot_rec list \<Rightarrow> document" where
  "skeleton_with_slots bs ss =
     \<lparr>doc_bones = Some bs, doc_slots = Some ss,
      doc_toplevel = [(lit ''bones'', VSized (length bs)), (lit ''slots'', VSized (length ss))]\<rparr>"

definition bare_slot :: "string \<Rightarrow> string \<Rightarrow> slot_rec" where
  "bare_slot n b = \<lparr>s_name = Some (JStr (lit n)), s_bone = Some (JStr (lit b)), s_attachment = None\<rparr>"

subsection \<open>Example file systems\<close>

text \<open>
  A file system in which every path exists, paths are joined with a slash, the atlas has
  the given lines, and \<^verbatim>\<open>float\<close> reads the one string \<^verbatim>\<open>" 90"\<close>; and a file system
  without any file.
\<close>

definition atlas_env :: "string list \<Rightarrow> env" where
  "atlas_env lines =
     \<lparr>path_exists = (\<lambda>p. True),
      path_join = (\<lambda>d f. d @ lit ''/'' @ f),
      read_lines = (\<lambda>p. Some (map lit lines)),
      float_of_string = (\<lambda>s. if s = lit '' 90'' then Some (Fin 90) else None),
      load_json = (\<lambda>p. None)\<rparr>"

definition no_files_env :: env where
  "no_files_env =
     \<lparr>path_exists = (\<lambda>p. False),
      path_join = (\<lambda>d f. d @ lit ''/'' @ f),
      read_lines = (\<lambda>p. None),
      float_of_string = (\<lambda>s. None),
      load_json = (\<lambda>p. None)\<rparr>"


text \<open>
  A file system like the first one in which the JSON file holds the given document, and a
  document whose animation data sits under the key \<^verbatim>\<open>Motions\<close>.
\<close>

definition json_env :: "document \<Rightarrow> env" where
  "json_env doc = (atlas_env [])\<lparr>load_json := (\<lambda>p. Some doc)\<rparr>"

definition motions_data :: toplevel where
  "motions_data =
     [(lit ''skeleton'', VUnsized True), (lit ''MyAnimData'', VClips []),
      (lit ''Motions'', VClips scenario_B)]"
section \<open>Properties of the floats\<close>

lemma round_even_of_int [simp]: "round_even (of_int n) = n"
  by (simp add: round_even_def)

lemma binade_eq:
  assumes "2 powi e \<le> \<bar>r\<bar>" and "\<bar>r\<bar> < 2 powi (e + 1)" and "- 1022 \<le> e"
  shows "binade r = e"
proof -
  have pos: "0 < \<bar>r\<bar>" using assms(1) by (smt (verit) zero_less_power_int)
  have "real_of_int e \<le> log 2 \<bar>r\<bar>"
    using assms(1) pos by (simp add: le_log_iff powr_real_of_int')
  moreover have "(2::real) powr real_of_int (e + 1) = 2 powi (e + 1)"
    by (simp add: powr_real_of_int' del: of_int_add)
  then have "log 2 \<bar>r\<bar> < real_of_int (e + 1)"
    using assms(2) pos by (simp add: log_less_iff del: of_int_add)
  ultimately have "\<lfloor>log 2 \<bar>r\<bar>\<rfloor> = e" by (simp add: floor_eq_iff)
  with assms(3) show ?thesis by (simp add: binade_def)
qed

text \<open>How to compute \<open>round_double\<close> once the binade of the argument is known.\<close>

lemma round_double_eq:
  assumes "2 powi e \<le> \<bar>r\<bar>" and "\<bar>r\<bar> < 2 powi (e + 1)" and "- 1022 \<le> e"
  shows "round_double r =
           (let u = 2 powi (e - 52); v = of_int (round_even (r / u)) * u
            in if 2 ^ 1024 \<le> \<bar>v\<bar> then (if 0 < r then PInf else NInf) else Fin v)"
proof -
  have "r \<noteq> 0" using assms(1) by (smt (verit) zero_less_power_int)
  then show ?thesis by (simp add: round_double_def binade_eq [OF assms])
qed

lemma round_even_nonneg: "0 \<le> q \<Longrightarrow> 0 \<le> round_even q"
  by (auto simp: round_even_def Let_def)

lemma round_double_nonneg:
  assumes "0 \<le> r" and "round_double r = Fin v"
  shows "0 \<le> v"
proof (cases "r = 0")
  case True
  with assms show ?thesis by (simp add: round_double_def)
next
  case False
  let ?u = "(2::real) powi (binade r - 52)"
  have u: "0 < ?u" by simp
  then have "0 \<le> r / ?u" using assms(1) by simp
  then have "0 \<le> round_even (r / ?u)" by (rule round_even_nonneg)
  then have "0 \<le> of_int (round_even (r / ?u)) * ?u" using u by simp
  with assms(2) False show ?thesis
    by (auto simp: round_double_def Let_def split: if_splits)
qed

lemma py_max_Fin [simp]: "py_max (Fin a) (Fin b) = Fin (max a b)"
  by (simp add: py_max_def max_def)

lemma trunc_nonneg: "0 \<le> r \<Longrightarrow> trunc r = \<lfloor>r\<rfloor>"
  by (simp add: trunc_def)

lemma trunc_neg: "r < 0 \<Longrightarrow> trunc r = \<lceil>r\<rceil>"
  by (simp add: trunc_def)

text \<open>Some doubles and products, as Python computes them.\<close>

lemma round_double_0 [simp]: "round_double 0 = Fin 0"
  by (simp add: round_double_def)

lemma round_double_1 [simp]: "round_double 1 = Fin 1"
  using round_double_eq [of 0 1] by (simp add: Let_def round_even_def)

lemma round_double_2 [simp]: "round_double 2 = Fin 2"
  using round_double_eq [of 1 2] by (simp add: Let_def round_even_def)

lemma round_double_30 [simp]: "round_double 30 = Fin 30"
  using round_double_eq [of 4 30] by (simp add: Let_def round_even_def)

lemma round_double_60 [simp]: "round_double 60 = Fin 60"
  using round_double_eq [of 5 60] by (simp add: Let_def round_even_def)

lemma round_double_minus_1 [simp]: "round_double (- 1) = Fin (- 1)"
  using round_double_eq [of 0 "- 1"] by (simp add: Let_def round_even_def)

lemma round_double_minus_30 [simp]: "round_double (- 30) = Fin (- 30)"
  using round_double_eq [of 4 "- 30"] by (simp add: Let_def round_even_def)

lemma round_double_15_8: "round_double (15 / 8) = Fin (15 / 8)"
  using round_double_eq [of 0 "15 / 8"] by (simp add: Let_def round_even_def)

lemma round_double_minus_15_8: "round_double (- (15 / 8)) = Fin (- (15 / 8))"
  using round_double_eq [of 0 "- (15 / 8)"] by (simp add: Let_def round_even_def)

lemma round_double_4 [simp]: "round_double 4 = Fin 4"
  using round_double_eq [of 2 4] by (simp add: Let_def round_even_def)

lemma round_double_10 [simp]: "round_double 10 = Fin 10"
  using round_double_eq [of 3 10] by (simp add: Let_def round_even_def)

lemma round_double_hundredth:
  "round_double (1 / 100) = Fin (5764607523034235 / 576460752303423488)"
  using round_double_eq [of "- 7" "1 / 100"] by (simp add: Let_def round_even_def)

lemma round_double_tenth: "round_double (1 / 10) = Fin (3602879701896397 / 36028797018963968)"
  using round_double_eq [of "- 4" "1 / 10"] by (simp add: Let_def round_even_def)

lemma round_double_overflow: "round_double (2 ^ 1023 * 30) = PInf"
  using round_double_eq [of 1027 "2 ^ 1023 * 30"] by (simp add: Let_def round_even_def)

lemma round_double_2_1024: "round_double (2 ^ 1024) = PInf"
  using round_double_eq [of 1024 "2 ^ 1024"] by (simp add: Let_def round_even_def)

text \<open>
  The doubles that \<^verbatim>\<open>json.load\<close> makes of 4.1 and of 0.7, and their products with 30:
  4.1 seconds is frame 122 and not 123, and 0.7 seconds is frame 21 and not 20, as in
  Python.
\<close>

lemma round_double_4_1: "round_double (41 / 10) = Fin (2308094809027379 / 562949953421312)"
  using round_double_eq [of 2 "41 / 10"] by (simp add: Let_def round_even_def)

lemma frame_of_4_1_seconds:
  "py_int (fmul (round_double (41 / 10)) (Fin 30)) = Inr 122"
proof -
  have "round_double (2308094809027379 / 562949953421312 * 30)
          = Fin (8655355533852671 / 70368744177664)"
    using round_double_eq [of 6 "2308094809027379 / 562949953421312 * 30"]
    by (simp add: Let_def round_even_def)
  then show ?thesis by (simp add: round_double_4_1 trunc_def)
qed

lemma round_double_0_7: "round_double (7 / 10) = Fin (3152519739159347 / 4503599627370496)"
  using round_double_eq [of "- 1" "7 / 10"] by (simp add: Let_def round_even_def)

lemma frame_of_0_7_seconds:
  "py_int (fmul (round_double (7 / 10)) (Fin 30)) = Inr 21"
proof -
  have "round_double (3152519739159347 / 4503599627370496 * 30) = Fin 21"
    using round_double_eq [of 4 "3152519739159347 / 4503599627370496 * 30"]
    by (simp add: Let_def round_even_def)
  then show ?thesis by (simp add: round_double_0_7 trunc_def)
qed

section \<open>Properties of the strings\<close>

lemma lit_eq_iff [simp]: "lit s = lit t \<longleftrightarrow> s = t"
  by (simp add: lit_def inj_map_eq_map inj_on_def)

lemma lit_Nil [simp]: "lit [] = []"
  by (simp add: lit_def)

lemma lit_eq_Nil_iff [simp]: "lit s = [] \<longleftrightarrow> s = []" "[] = lit s \<longleftrightarrow> s = []"
  by (auto simp: lit_def)

lemma length_lit [simp]: "length (lit s) = length s"
  by (simp add: lit_def)

lemma take_lit [simp]: "take n (lit s) = lit (take n s)"
  by (simp add: lit_def take_map)

lemma drop_lit [simp]: "drop n (lit s) = lit (drop n s)"
  by (simp add: lit_def drop_map)

lemma lit_append: "lit s @ lit t = lit (s @ t)"
  by (simp add: lit_def)

lemma lit_0_01_finite: "lit_0_01 = Fin (5764607523034235 / 576460752303423488)"
  by (simp add: lit_0_01_def round_double_hundredth)

lemma lit_0_1_finite: "lit_0_1 = Fin (3602879701896397 / 36028797018963968)"
  by (simp add: lit_0_1_def round_double_tenth)

lemma fmul_0_lit_0_01 [simp]: "fmul (Fin 0) lit_0_01 = Fin 0"
  by (simp add: lit_0_01_finite)

text \<open>\<^verbatim>\<open>10 * 0.01\<close> is the double \<^verbatim>\<open>0.1\<close>; \<^verbatim>\<open>57 * 0.01\<close> is not the double \<^verbatim>\<open>0.57\<close>.\<close>

lemma ten_hundredths: "fmul (Fin 10) lit_0_01 = lit_0_1"
  using round_double_eq [of "- 4" "10 * (5764607523034235 / 576460752303423488)"]
  by (simp add: lit_0_01_finite lit_0_1_finite Let_def round_even_def)

lemma fifty_seven_hundredths:
  "fmul (Fin 57) lit_0_01 = Fin (2567051787601183 / 4503599627370496)"
  "round_double (57 / 100) = Fin (5134103575202365 / 9007199254740992)"
  using round_double_eq [of "- 1" "57 * (5764607523034235 / 576460752303423488)"]
    round_double_eq [of "- 1" "57 / 100"]
  by (simp_all add: lit_0_01_finite Let_def round_even_def)

section \<open>Properties of the animation length\<close>

lemma scan_frames_fold:
  "\<forall>f\<in>set fs. finite_number (f_time f) \<Longrightarrow>
   scan_frames (Fin m) fs = Inr (Fin (fold max (map time_seconds fs) m))"
proof (induction fs arbitrary: m)
  case Nil
  then show ?case by simp
next
  case (Cons f fs)
  then obtain r where r: "get_float (f_time f) = Inr (Fin r)"
    by (auto simp: finite_number_def split: sum.splits pyfloat.splits)
  then have "time_seconds f = r" by (simp add: time_seconds_def)
  with r Cons show ?case by (simp add: max.commute)
qed

lemma scan_channel_fold:
  "\<forall>f\<in>set (case ch of None \<Rightarrow> [] | Some fs \<Rightarrow> fs). finite_number (f_time f) \<Longrightarrow>
   scan_channel (Fin m) ch =
     Inr (Fin (fold max (map time_seconds (case ch of None \<Rightarrow> [] | Some fs \<Rightarrow> fs)) m))"
  by (cases ch) (simp_all add: scan_frames_fold)

lemma scan_bone_anim_fold:
  "\<forall>f\<in>set (frames_of ba). finite_number (f_time f) \<Longrightarrow>
   scan_bone_anim (Fin m) ba = Inr (Fin (fold max (map time_seconds (frames_of ba)) m))"
  by (simp add: scan_bone_anim_def frames_of_def scan_channel_fold)

lemma scan_bones_fold:
  "\<forall>f\<in>set (concat (map (\<lambda>(b, ba). frames_of ba) bs)). finite_number (f_time f) \<Longrightarrow>
   scan_bones (Fin m) bs =
     Inr (Fin (fold max (map time_seconds (concat (map (\<lambda>(b, ba). frames_of ba) bs))) m))"
  by (induction bs arbitrary: m) (auto simp: scan_bone_anim_fold)

lemma scan_clips_fold:
  "\<forall>f\<in>set (all_frames cs). finite_number (f_time f) \<Longrightarrow>
   scan_clips (Fin m) cs = Inr (Fin (fold max (map time_seconds (all_frames cs)) m))"
  by (induction cs arbitrary: m) (auto simp: all_frames_def scan_bones_fold)

lemma fold_max_Max: "fold max xs (m::real) = Max (insert m (set xs))"
  using Max.set_eq_fold [of m xs] by simp

lemma scan_clips_max_time:
  "\<forall>f\<in>set (all_frames cs). finite_number (f_time f) \<Longrightarrow>
   scan_clips (Fin 0) cs = Inr (Fin (max_time cs))"
  by (simp add: scan_clips_fold fold_max_Max max_time_def)

lemma max_time_nonneg: "0 \<le> max_time cs"
  by (simp add: max_time_def)

text \<open>
  The length of an animation whose keyframe times are finite numbers, when the float
  product does not overflow: the product is not negative, so \<^verbatim>\<open>int\<close> is the floor.
\<close>

lemma anim_length_floor:
  assumes "\<forall>f\<in>set (all_frames cs). finite_number (f_time f)"
    and "fmul (Fin (max_time cs)) (Fin 30) = Fin p"
  shows "anim_length cs = Inr (\<lfloor>p\<rfloor> + 10)"
proof -
  have "0 \<le> max_time cs * 30" using max_time_nonneg [of cs] by simp
  with assms(2) have "0 \<le> p" using round_double_nonneg [of "max_time cs * 30" p] by simp
  then have "trunc p = \<lfloor>p\<rfloor>" by (rule trunc_nonneg)
  with assms show ?thesis by (simp add: anim_length_def scan_clips_max_time)
qed

lemma max_time_nonneg_keyframe:
  assumes "\<exists>f\<in>set (all_frames cs). 0 \<le> time_seconds f"
  shows "max_time cs = Max (time_seconds ` set (all_frames cs))"
proof -
  let ?S = "time_seconds ` set (all_frames cs)"
  from assms obtain x where x: "x \<in> ?S" "0 \<le> x" by auto
  then have ne: "?S \<noteq> {}" by auto
  have "x \<le> Max ?S" using x by simp
  with x have "0 \<le> Max ?S" by linarith
  moreover have "Max (insert 0 ?S) = max 0 (Max ?S)" using ne by (simp add: Max_insert)
  ultimately show ?thesis by (simp add: max_time_def max_def)
qed

lemma max_time_no_keyframes: "all_frames cs = [] \<Longrightarrow> max_time cs = 0"
  by (simp add: max_time_def)

text \<open>Nothing but the assignment of \<open>import_animation\<close> itself changes the animation range.\<close>

lemma animationRange_debug_print [simp]: "animationRange (debug_print e h) = animationRange h"
  by (simp add: debug_print_def)

lemma animationRange_debug_prints [simp]: "animationRange (debug_prints es h) = animationRange h"
  by (simp add: debug_prints_def)

lemma animationRange_bake_translate [simp]:
  "animationRange (bake_translate err b fs h) = animationRange h"
  by (induction fs arbitrary: h) (auto split: sum.splits)

lemma animationRange_bake_rotate [simp]:
  "animationRange (bake_rotate err b fs h) = animationRange h"
  by (induction fs arbitrary: h) (auto split: sum.splits)

lemma animationRange_bake_bones_improved [simp]:
  "animationRange (bake_bones_improved bm bs h) = animationRange h"
  by (induction bs arbitrary: h) (auto simp: Let_def split: option.splits)

lemma animationRange_bake_clips_improved [simp]:
  "animationRange (bake_clips_improved bm cs h) = animationRange h"
  by (induction cs arbitrary: h) auto

lemma animationRange_bake_bones [simp]:
  "animationRange (bake_bones bm bs h) = animationRange h"
  by (induction bs arbitrary: h) (auto simp: Let_def split: option.splits)

lemma animationRange_bake_clips [simp]:
  "animationRange (bake_clips bm cs h) = animationRange h"
  by (induction cs arbitrary: h) auto

lemma animationRange_log_channels [simp]:
  "animationRange (log_channels xs m h) = animationRange h"
  by (induction xs m h rule: log_channels.induct) (auto simp: Let_def split: sum.splits)

lemma animationRange_log_bones [simp]:
  "animationRange (log_bones bs m h) = animationRange h"
  by (induction bs m h rule: log_bones.induct) (auto simp: Let_def split: sum.splits)

lemma animationRange_log_scan [simp]:
  "animationRange (log_scan cs m h) = animationRange h"
  by (induction cs m h rule: log_scan.induct) (auto simp: Let_def split: sum.splits)

lemma import_animation_improved_range:
  assumes "fst (find_animations data) = VClips cs" "cs \<noteq> []" "anim_length cs = Inr n"
  shows "animationRange (import_animation_improved data bm h) = (0, n)"
  using assms by (cases "find_animations data") (simp add: import_animation_improved_def Let_def)

lemma import_animation_range:
  assumes "fst (find_animations data) = VClips cs" "cs \<noteq> []" "anim_length cs = Inr n"
  shows "animationRange (import_animation data bm h) = (0, n)"
  using assms
  by (cases "find_animations data")
    (simp add: import_animation_def Let_def split: list.splits option.splits)

text \<open>When the computation of the length raises, or nothing is found, the range stays.\<close>

lemma animationRange_animation_failed [simp]:
  "animationRange (animation_failed h) = animationRange h"
  "animationRange (animation_failed_improved h) = animationRange h"
  by (simp_all add: animation_failed_def animation_failed_improved_def)

lemma import_animation_improved_range_kept:
  assumes "fst (find_animations data) = VClips cs" "anim_length cs = Inl e"
  shows "animationRange (import_animation_improved data bm h) = animationRange h"
  using assms by (cases "find_animations data") (simp add: import_animation_improved_def Let_def)

lemma import_animation_range_kept:
  assumes "fst (find_animations data) = VClips cs" "anim_length cs = Inl e"
  shows "animationRange (import_animation data bm h) = animationRange h"
  using assms
  by (cases "find_animations data")
    (simp add: import_animation_def Let_def split: list.splits option.splits)

lemma all_frames_one_track: "all_frames (one_track fs) = fs"
  by (simp add: all_frames_def one_track_def bones_of_def frames_of_def)

lemma one_track_not_empty: "one_track fs \<noteq> []"
  by (simp add: one_track_def)

lemma find_animations_primary:
  "cs \<noteq> [] \<Longrightarrow> find_animations [(lit ''animations'', VClips cs)] = (VClips cs, [])"
  by (simp add: find_animations_def data_get_def)

lemma find_animations_one_track:
  "fst (find_animations [(lit ''animations'', VClips (one_track fs))]) = VClips (one_track fs)"
  by (simp add: find_animations_primary one_track_not_empty)

lemma anim_length_one_track:
  "anim_length (one_track fs) =
     (case scan_frames (Fin 0) fs of
        Inl e \<Rightarrow> Inl e
      | Inr m \<Rightarrow> (case py_int (fmul m (Fin 30)) of Inl e \<Rightarrow> Inl e | Inr n \<Rightarrow> Inr (n + 10)))"
  by (simp add: anim_length_def one_track_def bones_of_def scan_bone_anim_def split: sum.splits)

text \<open>
  Claim C1, as the code has it: when the animation source is a non-empty mapping of clips,
  every keyframe time is a finite number and the float product \<open>maxTime * 30\<close> is finite,
  both importers set the animation range to end at the floor of that product plus 10,
  where \<open>maxTime\<close> is the largest of 0 and the times of all translate, rotate and scale
  keyframes of all bones of all clips.  That is the largest of the times as soon as one of
  them is not negative; without keyframes the product is 0, which leaves the padding of
  10 frames.
\<close>

theorem duration_frames_floor:
  assumes "fst (find_animations data) = VClips cs" and "cs \<noteq> []"
    and "\<forall>f\<in>set (all_frames cs). finite_number (f_time f)"
    and "fmul (Fin (max_time cs)) (Fin 30) = Fin p"
  shows "animationRange (import_animation data bm h) = (0, \<lfloor>p\<rfloor> + 10)
       \<and> animationRange (import_animation_improved data bm h) = (0, \<lfloor>p\<rfloor> + 10)
       \<and> ((\<exists>f\<in>set (all_frames cs). 0 \<le> time_seconds f) \<longrightarrow>
            max_time cs = Max (time_seconds ` set (all_frames cs)))
       \<and> (all_frames cs = [] \<longrightarrow> p = 0)"
proof -
  have len: "anim_length cs = Inr (\<lfloor>p\<rfloor> + 10)"
    using assms(3,4) by (rule anim_length_floor)
  have "all_frames cs = [] \<longrightarrow> p = 0"
    using assms(4) by (auto simp: max_time_no_keyframes)
  then show ?thesis
    using import_animation_range [OF assms(1,2) len, of bm h]
      import_animation_improved_range [OF assms(1,2) len, of bm h]
      max_time_nonneg_keyframe [of cs]
    by simp
qed

theorem duration_frames_floor_witness:
  "animationRange (import_animation [(lit ''animations'', VClips scenario_B)]
      (Map.empty :: ustring \<rightharpoonup> unit) host0) = (0, 70)
   \<and> animationRange (import_animation_improved [(lit ''animations'', VClips scenario_B)]
      (Map.empty :: ustring \<rightharpoonup> unit) host0) = (0, 70)
   \<and> Max (time_seconds ` set (all_frames scenario_B)) = 2"
proof -
  have ne: "scenario_B \<noteq> []" by (simp add: scenario_B_def one_track_def)
  have src: "fst (find_animations [(lit ''animations'', VClips scenario_B)]) = VClips scenario_B"
    using ne by (simp add: find_animations_primary)
  have num: "\<forall>f\<in>set (all_frames scenario_B). finite_number (f_time f)"
    by (simp add: scenario_B_def all_frames_one_track kf_def finite_number_def)
  have m: "max_time scenario_B = 2"
    by (simp add: max_time_def scenario_B_def all_frames_one_track kf_def time_seconds_def)
  have p: "fmul (Fin (max_time scenario_B)) (Fin 30) = Fin 60" by (simp add: m)
  have pos: "\<exists>f\<in>set (all_frames scenario_B). 0 \<le> time_seconds f"
    by (simp add: scenario_B_def all_frames_one_track kf_def time_seconds_def)
  show ?thesis
    using duration_frames_floor [OF src ne num p, of "Map.empty :: ustring \<rightharpoonup> unit" host0] pos
    by (simp add: m)
qed

text \<open>
  Claim C1 as stated fails in four ways, in both importers.  A single keyframe at -1
  second gives 10 frames, where the maximum of the times gives the product -30 and the
  stated formula -20.  A document without animation data keeps the range it had, here
  \<open>(0, 100)\<close>, and not the padding of 10 frames.  A keyframe whose time is not a number,
  and a keyframe whose time is infinite or overflows when multiplied by 30, make the
  importer leave the range as it was.
\<close>

theorem duration_negative_time_counterexample:
  "animationRange (import_animation [(lit ''animations'', VClips (one_track [kf (- 1) 0 0]))]
      (Map.empty :: ustring \<rightharpoonup> unit) host0) = (0, 10)
   \<and> animationRange (import_animation_improved [(lit ''animations'', VClips (one_track [kf (- 1) 0 0]))]
      (Map.empty :: ustring \<rightharpoonup> unit) host0) = (0, 10)
   \<and> fmul (Fin (Max (time_seconds ` set (all_frames (one_track [kf (- 1) 0 0]))))) (Fin 30) = Fin (- 30)
   \<and> animationRange (import_animation [] (Map.empty :: ustring \<rightharpoonup> unit) host0) = (0, 100)
   \<and> animationRange (import_animation_improved [] (Map.empty :: ustring \<rightharpoonup> unit) host0) = (0, 100)
   \<and> animationRange (import_animation [(lit ''animations'', VClips (one_track [kt JBadString]))]
      (Map.empty :: ustring \<rightharpoonup> unit) host0) = (0, 100)
   \<and> animationRange (import_animation_improved [(lit ''animations'', VClips (one_track [kt JBadString]))]
      (Map.empty :: ustring \<rightharpoonup> unit) host0) = (0, 100)
   \<and> animationRange (import_animation
        [(lit ''animations'', VClips (one_track [kt (JFloat (Fin (2 ^ 1023)))]))]
      (Map.empty :: ustring \<rightharpoonup> unit) host0) = (0, 100)
   \<and> animationRange (import_animation_improved
        [(lit ''animations'', VClips (one_track [kt (JFloat (Fin (2 ^ 1023)))]))]
      (Map.empty :: ustring \<rightharpoonup> unit) host0) = (0, 100)
   \<and> animationRange (import_animation
        [(lit ''animations'', VClips (one_track [kt (JFloat PInf)]))]
      (Map.empty :: ustring \<rightharpoonup> unit) host0) = (0, 100)
   \<and> animationRange (import_animation_improved
        [(lit ''animations'', VClips (one_track [kt (JFloat PInf)]))]
      (Map.empty :: ustring \<rightharpoonup> unit) host0) = (0, 100)"
proof -
  have i: "anim_length (one_track [kt (JFloat PInf)]) = Inl OverflowError"
    by (simp add: anim_length_one_track kt_def py_max_def)
  have a: "anim_length (one_track [kf (- 1) 0 0]) = Inr 10"
    by (simp add: anim_length_one_track kf_def py_max_def trunc_def)
  have c: "anim_length (one_track [kt JBadString]) = Inl ValueError"
    by (simp add: anim_length_one_track kt_def)
  have "scan_frames (Fin 0) [kt (JFloat (Fin (2 ^ 1023)))] = Inr (Fin (2 ^ 1023))"
    by (simp add: kt_def)
  moreover have "fmul (Fin (2 ^ 1023)) (Fin 30) = PInf"
    using round_double_overflow by simp
  ultimately have d: "anim_length (one_track [kt (JFloat (Fin (2 ^ 1023)))]) = Inl OverflowError"
    by (simp only: anim_length_one_track sum.case py_int.simps)
  have r0: "animationRange host0 = (0, 100)" by (simp add: host0_def)
  have b: "animationRange (import_animation [] (Map.empty :: ustring \<rightharpoonup> unit) host0) = (0, 100)"
    "animationRange (import_animation_improved [] (Map.empty :: ustring \<rightharpoonup> unit) host0) = (0, 100)"
    by (simp_all add: import_animation_def import_animation_improved_def find_animations_def
        data_get_def Let_def r0)
  show ?thesis
    using import_animation_range [OF find_animations_one_track one_track_not_empty a,
        of "Map.empty :: ustring \<rightharpoonup> unit" host0]
      import_animation_improved_range [OF find_animations_one_track one_track_not_empty a,
        of "Map.empty :: ustring \<rightharpoonup> unit" host0]
      import_animation_range_kept [OF find_animations_one_track c,
        of "Map.empty :: ustring \<rightharpoonup> unit" host0]
      import_animation_improved_range_kept [OF find_animations_one_track c,
        of "Map.empty :: ustring \<rightharpoonup> unit" host0]
      import_animation_range_kept [OF find_animations_one_track d,
        of "Map.empty :: ustring \<rightharpoonup> unit" host0]
      import_animation_improved_range_kept [OF find_animations_one_track d,
        of "Map.empty :: ustring \<rightharpoonup> unit" host0]
      import_animation_range_kept [OF find_animations_one_track i,
        of "Map.empty :: ustring \<rightharpoonup> unit" host0]
      import_animation_improved_range_kept [OF find_animations_one_track i,
        of "Map.empty :: ustring \<rightharpoonup> unit" host0]
      b
    by (simp add: all_frames_one_track time_seconds_def kf_def r0)
qed

lemma floor_as_ceiling: "\<lfloor>r::real\<rfloor> = (if r \<in> \<int> then \<lceil>r\<rceil> else \<lceil>r\<rceil> - 1)"
proof (cases "r \<in> \<int>")
  case True
  then obtain k :: int where "r = of_int k" by (auto elim: Ints_cases)
  then show ?thesis by simp
next
  case False
  then have "r \<noteq> of_int \<lfloor>r\<rfloor>" by (metis Ints_of_int)
  with False show ?thesis by (simp add: ceiling_altdef)
qed

text \<open>
  Claim C5, as the code has it: under the conditions of claim C1 the duration is the
  ceiling formula only when the float product \<open>maxTime * 30\<close> is a whole number; otherwise
  it is one frame less, which is the floor.
\<close>

theorem duration_frames_not_ceiling:
  assumes "fst (find_animations data) = VClips cs" and "cs \<noteq> []"
    and "\<forall>f\<in>set (all_frames cs). finite_number (f_time f)"
    and "fmul (Fin (max_time cs)) (Fin 30) = Fin p"
  shows "snd (animationRange (import_animation data bm h)) =
           (if p \<in> \<int> then \<lceil>p\<rceil> + 10 else \<lceil>p\<rceil> + 9)
       \<and> snd (animationRange (import_animation_improved data bm h)) =
           (if p \<in> \<int> then \<lceil>p\<rceil> + 10 else \<lceil>p\<rceil> + 9)"
proof -
  have "anim_length cs = Inr (\<lfloor>p\<rfloor> + 10)"
    using assms(3,4) by (rule anim_length_floor)
  then show ?thesis
    using assms(1,2) floor_as_ceiling [of p]
    by (simp add: import_animation_range import_animation_improved_range)
qed

lemma fifteen_eighths_not_int: "(15 / 8 :: real) \<notin> \<int>"
proof
  assume "(15 / 8 :: real) \<in> \<int>"
  then obtain k :: int where "(15 / 8 :: real) = of_int k" by (auto elim: Ints_cases)
  then have "(15::real) = of_int (8 * k)" by simp
  then have "(15::int) = 8 * k" using of_int_eq_iff [of 15 "8 * k", where 'a = real] by simp
  then show False by presburger
qed

lemma sixteenth_track:
  "max_time (one_track [kt (JFloat (Fin (1 / 16)))]) = 1 / 16"
  "\<forall>f\<in>set (all_frames (one_track [kt (JFloat (Fin (1 / 16)))])). finite_number (f_time f)"
  "fmul (Fin (1 / 16)) (Fin 30) = Fin (15 / 8)"
  using round_double_15_8
  by (simp_all add: max_time_def all_frames_one_track time_seconds_def kt_def finite_number_def)

theorem duration_frames_not_ceiling_witness:
  "snd (animationRange (import_animation
      [(lit ''animations'', VClips (one_track [kt (JFloat (Fin (1 / 16)))]))]
      (Map.empty :: ustring \<rightharpoonup> unit) host0)) = 11
   \<and> snd (animationRange (import_animation_improved
      [(lit ''animations'', VClips (one_track [kt (JFloat (Fin (1 / 16)))]))]
      (Map.empty :: ustring \<rightharpoonup> unit) host0)) = 11"
proof -
  let ?cs = "one_track [kt (JFloat (Fin (1 / 16)))]"
  have p: "fmul (Fin (max_time ?cs)) (Fin 30) = Fin (15 / 8)"
    by (simp only: sixteenth_track)
  have c: "\<lceil>15 / 8 :: real\<rceil> = 2" by (simp add: ceiling_eq_iff)
  show ?thesis
    using duration_frames_not_ceiling [OF find_animations_one_track one_track_not_empty
        sixteenth_track(2) p, of "Map.empty :: ustring \<rightharpoonup> unit" host0]
      fifteen_eighths_not_int
    by (simp add: c)
qed

text \<open>
  Claim C5 as stated fails in four ways, in both importers.  A single keyframe at 0.0625
  seconds is 1.875 frames: the importers give 1 + 10 = 11 frames, the ceiling formula
  gives 12.  With an empty mapping under \<^verbatim>\<open>animations\<close>, with a keyframe time that is
  null, and with a keyframe time that is an integer beyond the range of a float, no
  duration is set at all: the range stays as it was, here \<open>(0, 100)\<close>.
\<close>

theorem duration_ceiling_counterexample:
  "snd (animationRange (import_animation
      [(lit ''animations'', VClips (one_track [kt (JFloat (Fin (1 / 16)))]))]
      (Map.empty :: ustring \<rightharpoonup> unit) host0)) = 11
   \<and> snd (animationRange (import_animation_improved
      [(lit ''animations'', VClips (one_track [kt (JFloat (Fin (1 / 16)))]))]
      (Map.empty :: ustring \<rightharpoonup> unit) host0)) = 11
   \<and> fmul (Fin (Max (time_seconds ` set (all_frames (one_track [kt (JFloat (Fin (1 / 16)))])))))
        (Fin 30) = Fin (15 / 8)
   \<and> \<lceil>15 / 8 :: real\<rceil> + 10 = 12
   \<and> animationRange (import_animation [(lit ''animations'', VClips [])]
      (Map.empty :: ustring \<rightharpoonup> unit) host0) = (0, 100)
   \<and> animationRange (import_animation_improved [(lit ''animations'', VClips [])]
      (Map.empty :: ustring \<rightharpoonup> unit) host0) = (0, 100)
   \<and> animationRange (import_animation [(lit ''animations'', VClips (one_track [kt JBadType]))]
      (Map.empty :: ustring \<rightharpoonup> unit) host0) = (0, 100)
   \<and> animationRange (import_animation_improved [(lit ''animations'', VClips (one_track [kt JBadType]))]
      (Map.empty :: ustring \<rightharpoonup> unit) host0) = (0, 100)
   \<and> animationRange (import_animation
        [(lit ''animations'', VClips (one_track [kt (JInt (2 ^ 1024))]))]
      (Map.empty :: ustring \<rightharpoonup> unit) host0) = (0, 100)
   \<and> animationRange (import_animation_improved
        [(lit ''animations'', VClips (one_track [kt (JInt (2 ^ 1024))]))]
      (Map.empty :: ustring \<rightharpoonup> unit) host0) = (0, 100)"
proof -
  have a: "anim_length (one_track [kt (JFloat (Fin (1 / 16)))]) = Inr 11"
    using round_double_15_8
    by (simp add: anim_length_one_track kt_def py_max_def trunc_def)
  have c: "anim_length (one_track [kt JBadType]) = Inl TypeError"
    by (simp add: anim_length_one_track kt_def)
  have "round_double (of_int (2 ^ 1024)) = PInf"
    using round_double_2_1024 by simp
  then have d: "anim_length (one_track [kt (JInt (2 ^ 1024))]) = Inl OverflowError"
    by (simp add: anim_length_one_track kt_def del: of_int_power of_int_numeral)
  have r0: "animationRange host0 = (0, 100)" by (simp add: host0_def)
  have b: "animationRange (import_animation [(lit ''animations'', VClips [])]
             (Map.empty :: ustring \<rightharpoonup> unit) host0) = (0, 100)"
    "animationRange (import_animation_improved [(lit ''animations'', VClips [])]
             (Map.empty :: ustring \<rightharpoonup> unit) host0) = (0, 100)"
    by (simp_all add: import_animation_def import_animation_improved_def find_animations_def
        data_get_def names_animation_def lower_def lower_cp_def lit_def Let_def r0)
  have e: "\<lceil>15 / 8 :: real\<rceil> = 2" by (simp add: ceiling_eq_iff)
  show ?thesis
    using import_animation_range [OF find_animations_one_track one_track_not_empty a,
        of "Map.empty :: ustring \<rightharpoonup> unit" host0]
      import_animation_improved_range [OF find_animations_one_track one_track_not_empty a,
        of "Map.empty :: ustring \<rightharpoonup> unit" host0]
      import_animation_range_kept [OF find_animations_one_track c,
        of "Map.empty :: ustring \<rightharpoonup> unit" host0]
      import_animation_improved_range_kept [OF find_animations_one_track c,
        of "Map.empty :: ustring \<rightharpoonup> unit" host0]
      import_animation_range_kept [OF find_animations_one_track d,
        of "Map.empty :: ustring \<rightharpoonup> unit" host0]
      import_animation_improved_range_kept [OF find_animations_one_track d,
        of "Map.empty :: ustring \<rightharpoonup> unit" host0]
      b round_double_15_8
    by (simp add: all_frames_one_track time_seconds_def kt_def r0 e)
qed

section \<open>Properties of the keyframe conversion\<close>

lemma baked_debug_print [simp]: "baked (debug_print e h) = baked h"
  by (simp add: debug_print_def)

lemma radToDeg_debug_print [simp]: "radToDeg (debug_print e h) = radToDeg h"
  by (simp add: debug_print_def)

lemma baked_bake_translate:
  "baked (bake_translate err b fs h) = baked h @ concat (map (pos_keys b) fs)"
  by (induction fs arbitrary: h) (auto simp: pos_keys_def split: sum.splits)

lemma baked_bake_rotate:
  "baked (bake_rotate err b fs h) = baked h @ concat (map (rot_keys (radToDeg h) b) fs)"
  by (induction fs arbitrary: h) (auto simp: rot_keys_def split: sum.splits)

lemma minus_four_hundredths:
  "fmul (Fin (- 4)) lit_0_01 = Fin (- 5764607523034235 / 144115188075855872)"
  using round_double_eq [of "- 5" "- 4 * (5764607523034235 / 576460752303423488)"]
  by (simp add: lit_0_01_finite Let_def round_even_def)

lemma round_double_minus_1_16 [simp]: "round_double (- 1 / 16) = Fin (- 1 / 16)"
  using round_double_eq [of "- 4" "- 1 / 16"] by (simp add: Let_def round_even_def)

text \<open>
  Claim C4, as the code has it: when the time of a keyframe converts to a float \<open>t\<close> and
  the float product \<open>t * 30\<close> is the finite number \<open>p\<close>, a translate keyframe with the
  numbers \<open>x\<close> and \<open>y\<close> becomes \<open>(int p, x * 0.01, (- y) * 0.01)\<close>, the products being float
  products, and a rotate keyframe becomes the host's \<^verbatim>\<open>radToDeg\<close> of its angle at the
  same frame index.  \<^verbatim>\<open>int\<close> truncates towards zero: the floor for \<open>p \<ge> 0\<close>, the ceiling
  for \<open>p < 0\<close>.  The keys of a track are the keys of its keyframes, each converted on its
  own, in order.
\<close>

theorem keyframe_conversion:
  assumes "get_float (f_time f) = Inr t" and "fmul t (Fin 30) = Fin p"
  shows "(get_float (f_x f) = Inr x \<and> get_float (f_y f) = Inr y \<longrightarrow>
            translate_key f = Inr (trunc p, fmul x lit_0_01, fmul (fneg y) lit_0_01))
       \<and> (get_float (f_angle f) = Inr a \<longrightarrow> rotate_key r2d f = Inr (trunc p, r2d a))
       \<and> (0 \<le> p \<longrightarrow> trunc p = \<lfloor>p\<rfloor>)
       \<and> (p < 0 \<longrightarrow> trunc p = \<lceil>p\<rceil>)
       \<and> baked (bake_translate err b fs h) = baked h @ concat (map (pos_keys b) fs)
       \<and> baked (bake_rotate err b fs h) =
           baked h @ concat (map (rot_keys (radToDeg h) b) fs)"
  using assms
  by (simp add: translate_key_def rotate_key_def frame_index_def trunc_def
      baked_bake_translate baked_bake_rotate)

theorem keyframe_conversion_witness:
  "translate_key (kf 1 10 4) = Inr (30, lit_0_1, Fin (- 5764607523034235 / 144115188075855872))
   \<and> baked (bake_translate (ERROR, ''position keyframe error'', []) (lit ''root'')
        [kf 0 0 0, kf 1 10 0, kf 2 0 0] host0)
       = [PosKey (lit ''root'') 0 (Fin 0, Fin 0, Fin 0),
          PosKey (lit ''root'') 30 (lit_0_1, Fin 0, Fin 0),
          PosKey (lit ''root'') 60 (Fin 0, Fin 0, Fin 0)]"
proof -
  have t: "get_float (f_time (kf 1 10 4)) = Inr (Fin 1)" by (simp add: kf_def)
  have p: "fmul (Fin 1) (Fin 30) = Fin 30" by simp
  have xy: "get_float (f_x (kf 1 10 4)) = Inr (Fin 10)" "get_float (f_y (kf 1 10 4)) = Inr (Fin 4)"
    by (simp_all add: kf_def)
  have k: "pos_keys (lit ''root'') (kf 0 0 0) = [PosKey (lit ''root'') 0 (Fin 0, Fin 0, Fin 0)]"
    "pos_keys (lit ''root'') (kf 1 10 0) = [PosKey (lit ''root'') 30 (lit_0_1, Fin 0, Fin 0)]"
    "pos_keys (lit ''root'') (kf 2 0 0) = [PosKey (lit ''root'') 60 (Fin 0, Fin 0, Fin 0)]"
    by (simp_all add: pos_keys_def translate_key_def frame_index_def kf_def trunc_def
        ten_hundredths)
  have b0: "baked host0 = []" by (simp add: host0_def)
  note th = keyframe_conversion [OF t p, where x = "Fin 10" and y = "Fin 4"
        and err = "(ERROR, ''position keyframe error'', [])" and b = "lit ''root''"
        and fs = "[kf 0 0 0, kf 1 10 0, kf 2 0 0]" and h = host0]
  from th xy have "translate_key (kf 1 10 4) =
      Inr (30, lit_0_1, Fin (- 5764607523034235 / 144115188075855872))"
    by (simp add: trunc_def ten_hundredths minus_four_hundredths)
  moreover from th have "baked (bake_translate (ERROR, ''position keyframe error'', [])
      (lit ''root'') [kf 0 0 0, kf 1 10 0, kf 2 0 0] host0)
      = baked host0 @ concat (map (pos_keys (lit ''root'')) [kf 0 0 0, kf 1 10 0, kf 2 0 0])"
    by blast
  ultimately show ?thesis by (simp add: k b0)
qed

text \<open>
  Claim C4 as stated fails in three ways, in both importers, which share the conversion.
  A keyframe at -0.0625 seconds is -1.875 frames: it is baked at frame -1, where the floor
  is -2.  A keyframe whose time times 30 overflows raises, and so does a keyframe whose
  time, \<open>x\<close> or angle is not a number: the keyframe is reported and no key is baked.
\<close>

theorem keyframe_negative_time_counterexample:
  "translate_key (kt (JFloat (Fin (- 1 / 16)))) = Inr (- 1, Fin 0, Fin 0)
   \<and> fmul (Fin (- 1 / 16)) (Fin 30) = Fin (- 15 / 8)
   \<and> \<lfloor>- 15 / 8 :: real\<rfloor> = - 2
   \<and> translate_key (kt (JFloat (Fin (2 ^ 1023)))) = Inl OverflowError
   \<and> pos_keys (lit ''root'') (kt (JFloat (Fin (2 ^ 1023)))) = []
   \<and> translate_key (kt JBadString) = Inl ValueError
   \<and> pos_keys (lit ''root'') (kt JBadString) = []
   \<and> translate_key ((kt (JInt 0))\<lparr>f_x := Some JBadString\<rparr>) = Inl ValueError
   \<and> rotate_key (radToDeg host0) ((kt (JInt 0))\<lparr>f_angle := Some JBadType\<rparr>) = Inl TypeError"
proof -
  have c: "\<lceil>- (15 / 8) :: real\<rceil> = - 1" by (simp add: ceiling_eq_iff)
  have f: "\<lfloor>- (15 / 8) :: real\<rfloor> = - 2" by (simp add: floor_eq_iff)
  have m: "fmul (Fin (- 1 / 16)) (Fin 30) = Fin (- 15 / 8)"
    using round_double_minus_15_8 by simp
  have a: "translate_key (kt (JFloat (Fin (- 1 / 16)))) = Inr (- 1, Fin 0, Fin 0)"
    using m c by (simp add: translate_key_def frame_index_def kt_def trunc_def)
  have "fmul (Fin (2 ^ 1023)) (Fin 30) = PInf"
    using round_double_overflow by simp
  then have "frame_index (kt (JFloat (Fin (2 ^ 1023)))) = Inl OverflowError"
    by (simp add: frame_index_def kt_def)
  then have o: "translate_key (kt (JFloat (Fin (2 ^ 1023)))) = Inl OverflowError"
    by (simp only: translate_key_def sum.case)
  have b: "translate_key (kt JBadString) = Inl ValueError"
    by (simp add: translate_key_def frame_index_def kt_def)
  have x: "translate_key ((kt (JInt 0))\<lparr>f_x := Some JBadString\<rparr>) = Inl ValueError"
    "rotate_key (radToDeg host0) ((kt (JInt 0))\<lparr>f_angle := Some JBadType\<rparr>) = Inl TypeError"
    by (simp_all add: translate_key_def rotate_key_def frame_index_def kt_def)
  show ?thesis
    using a m f o b x by (simp only: pos_keys_def sum.case) simp
qed

section \<open>Properties of the skeleton\<close>

lemma dom_apply_decl [simp]: "dom (apply_decl d bm) = dom bm"
  by (auto simp: apply_decl_def split: option.splits if_splits)

lemma apply_decl_None_iff [simp]: "apply_decl d bm n = None \<longleftrightarrow> bm n = None"
  using dom_apply_decl [of d bm] by (metis domIff)

lemma fold_apply_decl_None_iff [simp]:
  "fold apply_decl ds bm n = None \<longleftrightarrow> bm n = None"
  by (induction ds arbitrary: bm) auto

lemma parents_in_map_apply_decl:
  "parents_in_map bm \<Longrightarrow> parents_in_map (apply_decl d bm)"
  unfolding parents_in_map_def
  by (auto simp: apply_decl_def split: option.splits if_splits)

lemma parents_in_map_fold:
  "parents_in_map bm \<Longrightarrow> parents_in_map (fold apply_decl ds bm)"
  by (induction ds arbitrary: bm) (auto simp: parents_in_map_apply_decl)

lemma resolvable_apply_decl [simp]: "resolvable (apply_decl d bm) n = resolvable bm n"
  by (auto simp: resolvable_def fun_eq_iff split: option.splits)

lemma resolvable_fold [simp]: "resolvable (fold apply_decl ds bm) n = resolvable bm n"
  by (induction ds arbitrary: bm) auto

lemma apply_decl_entry:
  "bm n = Some b \<Longrightarrow>
   apply_decl d bm n = Some (if resolvable bm n d then b\<lparr>bo_parent := map_option snd d\<rparr> else b)"
  by (auto simp: apply_decl_def resolvable_def split: option.splits)

lemma fold_apply_decl_entry:
  "bm n = Some b \<Longrightarrow>
   fold apply_decl ds bm n =
     Some (case resolved_parent bm ds n of None \<Rightarrow> b | Some p \<Rightarrow> b\<lparr>bo_parent := Some p\<rparr>)"
proof (induction ds arbitrary: b rule: rev_induct)
  case Nil
  then show ?case by (simp add: resolved_parent_def)
next
  case (snoc d ds)
  let ?bm = "fold apply_decl ds bm"
  let ?b = "case resolved_parent bm ds n of None \<Rightarrow> b | Some p \<Rightarrow> b\<lparr>bo_parent := Some p\<rparr>"
  have mid: "?bm n = Some ?b" using snoc by simp
  have step: "fold apply_decl (ds @ [d]) bm n =
      Some (if resolvable bm n d then ?b\<lparr>bo_parent := map_option snd d\<rparr> else ?b)"
    using apply_decl_entry [of ?bm n ?b d] mid by simp
  show ?case
  proof (cases "resolvable bm n d")
    case True
    then obtain p where d: "d = Some (n, p)"
      by (auto simp: resolvable_def split: option.splits)
    have "resolved_parent bm (ds @ [d]) n = Some p"
      using True by (simp add: resolved_parent_def d)
    then show ?thesis using step True
      by (simp add: d split: option.splits)
  next
    case False
    then have "resolved_parent bm (ds @ [d]) n = resolved_parent bm ds n"
      by (simp add: resolved_parent_def)
    then show ?thesis using step False by simp
  qed
qed

lemma resolved_parent_declared:
  "resolved_parent bm ds n = Some p \<Longrightarrow> Some (n, p) \<in> set ds \<and> p \<noteq> [] \<and> bm p \<noteq> None"
proof -
  assume a: "resolved_parent bm ds n = Some p"
  then have f: "filter (resolvable bm n) ds \<noteq> []"
    by (auto simp: resolved_parent_def Let_def split: if_splits)
  let ?l = "last (filter (resolvable bm n) ds)"
  have "?l \<in> set (filter (resolvable bm n) ds)" using f by (rule last_in_set)
  then have m: "?l \<in> set ds" and r: "resolvable bm n ?l" by auto
  from a f have "map_option snd ?l = Some p" by (simp add: resolved_parent_def Let_def)
  with r have "?l = Some (n, p)" by (auto simp: resolvable_def split: option.splits)
  with m r show ?thesis by (auto simp: resolvable_def)
qed

text \<open>The second loop of either file is the list of its declarations, applied in order.\<close>

lemma fst_set_parent: "fst (set_parent bone s) = apply_decl (declares bone) (fst s)"
  by (auto simp: set_parent_def apply_decl_def declares_def Let_def split: option.splits)

lemma fst_set_parent_improved:
  "fst (set_parent_improved bone s) = apply_decl (declares_improved bone) (fst s)"
  by (auto simp: set_parent_improved_def apply_decl_def declares_improved_def Let_def
      split: option.splits)

lemma fst_fold_set_parent:
  "fst (fold set_parent bones s) = fold apply_decl (map declares bones) (fst s)"
  by (induction bones arbitrary: s) (simp_all add: fst_set_parent)

lemma fst_fold_set_parent_improved:
  "fst (fold set_parent_improved bones s) = fold apply_decl (map declares_improved bones) (fst s)"
  by (induction bones arbitrary: s) (simp_all add: fst_set_parent_improved)

text \<open>The first loop of either file leaves every bone of the map without a parent.\<close>

lemma all_roots_create_bone: "all_roots (fst s) \<Longrightarrow> all_roots (fst (create_bone scale bone s))"
  by (auto simp: create_bone_def all_roots_def new_bone_def Let_def
      split: option.splits sum.splits prod.splits)

lemma all_roots_create_bone_improved:
  "all_roots (fst s) \<Longrightarrow> all_roots (fst (create_bone_improved scale bone s))"
  by (auto simp: create_bone_improved_def all_roots_def new_bone_def Let_def
      split: option.splits sum.splits prod.splits)

lemma all_roots_fold_create_bone:
  "all_roots (fst s) \<Longrightarrow> all_roots (fst (fold (create_bone scale) bones s))"
  by (induction bones arbitrary: s) (simp_all add: all_roots_create_bone)

lemma all_roots_fold_create_bone_improved:
  "all_roots (fst s) \<Longrightarrow> all_roots (fst (fold (create_bone_improved scale) bones s))"
  by (induction bones arbitrary: s) (simp_all add: all_roots_create_bone_improved)

lemma all_roots_parents_in_map: "all_roots bm \<Longrightarrow> parents_in_map bm"
  by (auto simp: all_roots_def parents_in_map_def)

lemma all_roots_empty [simp]: "all_roots Map.empty"
  by (simp add: all_roots_def)

lemma create_bones_parents_in_map: "parents_in_map (fst (create_bones data scale h))"
  by (simp add: create_bones_def Let_def fst_fold_set_parent parents_in_map_fold
      all_roots_parents_in_map all_roots_fold_create_bone)

lemma create_bones_improved_parents_in_map:
  "parents_in_map (fst (create_bones_improved data scale h))"
proof (cases "bones_data data = []")
  case True
  then show ?thesis by (simp add: create_bones_improved_def all_roots_parents_in_map)
next
  case False
  then show ?thesis
    by (simp add: create_bones_improved_def Let_def fst_fold_set_parent_improved
        parents_in_map_fold all_roots_parents_in_map all_roots_fold_create_bone_improved)
qed

text \<open>The parent of every bone of the result is the last resolvable declaration for it.\<close>

lemma create_bones_parent:
  assumes "fst (create_bones data scale h) n = Some b"
  shows "bo_parent b = resolved_parent (fst (create_bones data scale h)) (map declares (bones_data data)) n"
proof -
  let ?ds = "map declares (bones_data data)"
  let ?bm1 = "fst (fold (create_bone scale) (bones_data data)
                 (Map.empty, debug_print (INFO, ''creating bones'', []) h))"
  have bm2: "fst (create_bones data scale h) = fold apply_decl ?ds ?bm1"
    by (simp add: create_bones_def Let_def fst_fold_set_parent)
  have roots: "all_roots ?bm1" by (simp add: all_roots_fold_create_bone)
  from assms bm2 have "?bm1 n \<noteq> None" by (metis fold_apply_decl_None_iff option.distinct(1))
  then obtain b1 where b1: "?bm1 n = Some b1" by auto
  with roots have r: "bo_parent b1 = None" by (auto simp: all_roots_def)
  have same: "resolved_parent (fold apply_decl ?ds ?bm1) ?ds n = resolved_parent ?bm1 ?ds n"
    by (simp add: resolved_parent_def)
  from fold_apply_decl_entry [of ?bm1 n b1 ?ds] b1 assms bm2 r
  have "bo_parent b = resolved_parent ?bm1 ?ds n"
    by (auto split: option.splits)
  with same bm2 show ?thesis by simp
qed

lemma create_bones_improved_parent:
  assumes "fst (create_bones_improved data scale h) n = Some b"
  shows "bo_parent b = resolved_parent (fst (create_bones_improved data scale h))
           (map declares_improved (bones_data data)) n"
proof -
  let ?ds = "map declares_improved (bones_data data)"
  let ?bm1 = "fst (fold (create_bone_improved scale) (bones_data data)
                 (Map.empty, debug_print (INFO, ''creating bones'', []) h))"
  from assms have ne: "bones_data data \<noteq> []"
    by (auto simp: create_bones_improved_def split: if_splits)
  then have bm2: "fst (create_bones_improved data scale h) = fold apply_decl ?ds ?bm1"
    by (simp add: create_bones_improved_def Let_def fst_fold_set_parent_improved)
  have roots: "all_roots ?bm1" by (simp add: all_roots_fold_create_bone_improved)
  from assms bm2 have "?bm1 n \<noteq> None" by (metis fold_apply_decl_None_iff option.distinct(1))
  then obtain b1 where b1: "?bm1 n = Some b1" by auto
  with roots have r: "bo_parent b1 = None" by (auto simp: all_roots_def)
  have same: "resolved_parent (fold apply_decl ?ds ?bm1) ?ds n = resolved_parent ?bm1 ?ds n"
    by (simp add: resolved_parent_def)
  from fold_apply_decl_entry [of ?bm1 n b1 ?ds] b1 assms bm2 r
  have "bo_parent b = resolved_parent ?bm1 ?ds n"
    by (auto split: option.splits)
  with same bm2 show ?thesis by simp
qed

lemma parent_rel_declared:
  assumes "\<And>n b. bm n = Some b \<Longrightarrow> bo_parent b = resolved_parent bm ds n"
  shows "parent_rel bm \<subseteq> declared_links ds"
  using assms resolved_parent_declared
  by (fastforce simp: parent_rel_def declared_links_def)

lemma acyclic_parent_rel:
  assumes "\<And>n b. bm n = Some b \<Longrightarrow> bo_parent b = resolved_parent bm ds n"
    and "acyclic (declared_links ds)"
  shows "acyclic (parent_rel bm)"
  using parent_rel_declared [OF assms(1)] assms(2) by (blast intro: acyclic_subset)

section \<open>Properties of the listener\<close>

lemma listener_debug_print [simp]: "listener (debug_print e h) = listener h @ [e]"
  by (simp add: debug_print_def)

lemma listener_debug_prints [simp]: "listener (debug_prints es h) = listener h @ es"
  by (simp add: debug_prints_def)

text \<open>A loop whose rounds only add to the listener keeps what a round has printed.\<close>

lemma fold_listener_mono:
  assumes "\<And>x s. set (listener (snd s)) \<subseteq> set (listener (snd (f x s)))"
  shows "set (listener (snd s)) \<subseteq> set (listener (snd (fold f xs s)))"
proof (induction xs arbitrary: s)
  case Nil
  then show ?case by simp
next
  case (Cons x xs)
  have "set (listener (snd s)) \<subseteq> set (listener (snd (f x s)))" by (rule assms)
  also have "\<dots> \<subseteq> set (listener (snd (fold f xs (f x s))))" by (rule Cons.IH)
  finally show ?case by simp
qed

lemma fold_listener_emits:
  assumes mono: "\<And>y s. set (listener (snd s)) \<subseteq> set (listener (snd (f y s)))"
    and inv: "\<And>y s. Q s \<Longrightarrow> Q (f y s)"
    and emits: "\<And>s. Q s \<Longrightarrow> e \<in> set (listener (snd (f x s)))"
    and "x \<in> set xs" and "Q s"
  shows "e \<in> set (listener (snd (fold f xs s)))"
  using assms(4,5)
proof (induction xs arbitrary: s)
  case Nil
  then show ?case by simp
next
  case (Cons y ys)
  show ?case
  proof (cases "x = y")
    case True
    with Cons.prems emits have "e \<in> set (listener (snd (f y s)))" by simp
    with fold_listener_mono [of f "f y s" ys, OF mono] show ?thesis by auto
  next
    case False
    with Cons.prems have "x \<in> set ys" by simp
    moreover have "Q (f y s)" using Cons.prems inv by simp
    ultimately show ?thesis using Cons.IH by simp
  qed
qed

text \<open>
  A loop whose rounds each add entries with the property \<open>P\<close> adds only such entries;
  \<open>Q\<close> is what the rounds keep of the state.
\<close>

lemma fold_listener_adds:
  assumes step: "\<And>x s. Q s \<Longrightarrow>
      Q (f x s) \<and> (\<exists>es. listener (snd (f x s)) = listener (snd s) @ es \<and> (\<forall>e\<in>set es. P e))"
    and "Q s"
  shows "\<exists>es. listener (snd (fold f xs s)) = listener (snd s) @ es \<and> (\<forall>e\<in>set es. P e)"
  using assms(2)
proof (induction xs arbitrary: s)
  case Nil
  then show ?case by simp
next
  case (Cons x xs)
  from step [OF Cons.prems, of x] obtain es where
    q: "Q (f x s)" and es: "listener (snd (f x s)) = listener (snd s) @ es" "\<forall>e\<in>set es. P e"
    by blast
  from Cons.IH [OF q] obtain es' where
    es': "listener (snd (fold f xs (f x s))) = listener (snd (f x s)) @ es'" "\<forall>e\<in>set es'. P e"
    by blast
  have "listener (snd (fold f (x # xs) s)) = listener (snd s) @ (es @ es')"
    using es(1) es'(1) by simp
  moreover have "\<forall>e\<in>set (es @ es'). P e" using es(2) es'(2) by auto
  ultimately show ?case by blast
qed

lemma printed_append:
  "listener h' = listener h @ es \<Longrightarrow> printed h h' = es"
  by (simp add: printed_def)

lemma adds_create_bone:
  "\<exists>es. listener (snd (create_bone scale bone s)) = listener (snd s) @ es
        \<and> (\<forall>e\<in>set es. fst e = INFO \<or> bone_report e)"
  by (auto simp: create_bone_def bone_report_def Let_def
      split: sum.splits option.splits prod.splits)

lemma adds_set_parent:
  "\<exists>es. listener (snd (set_parent bone s)) = listener (snd s) @ es
        \<and> (\<forall>e\<in>set es. fst e = INFO \<or> bone_report e)"
  by (auto simp: set_parent_def bone_report_def Let_def split: option.splits)

lemma adds_create_bone_improved:
  "\<exists>es. listener (snd (create_bone_improved scale bone s)) = listener (snd s) @ es
        \<and> (\<forall>e\<in>set es. fst e = INFO \<or> bone_report_improved bm e)"
  by (auto simp: create_bone_improved_def bone_report_improved_def Let_def
      split: sum.splits option.splits prod.splits)

lemma adds_set_parent_improved:
  assumes "\<forall>p. fst s p = None \<longleftrightarrow> bm p = None"
  shows "(\<forall>p. fst (set_parent_improved bone s) p = None \<longleftrightarrow> bm p = None)
       \<and> (\<exists>es. listener (snd (set_parent_improved bone s)) = listener (snd s) @ es
              \<and> (\<forall>e\<in>set es. fst e = INFO \<or> bone_report_improved bm e))"
proof -
  have "\<forall>p. fst (set_parent_improved bone s) p = None \<longleftrightarrow> bm p = None"
    using assms by (simp add: fst_set_parent_improved)
  moreover have "\<exists>es. listener (snd (set_parent_improved bone s)) = listener (snd s) @ es
              \<and> (\<forall>e\<in>set es. fst e = INFO \<or> bone_report_improved bm e)"
    using assms
    by (auto simp: set_parent_improved_def bone_report_improved_def Let_def split: option.splits)
  ultimately show ?thesis by blast
qed

lemma create_bones_printed:
  "listener (snd (create_bones data scale h))
     = listener h @ printed h (snd (create_bones data scale h))
   \<and> (\<forall>e\<in>set (printed h (snd (create_bones data scale h))). fst e = INFO \<or> bone_report e)"
proof -
  let ?P = "\<lambda>e. fst e = INFO \<or> bone_report e"
  let ?s0 = "(Map.empty :: bone_map, debug_print (INFO, ''creating bones'', []) h)"
  let ?s1 = "fold (create_bone scale) (bones_data data) ?s0"
  let ?s2 = "fold set_parent (bones_data data) ?s1"
  obtain es1 where es1: "listener (snd ?s1) = listener (snd ?s0) @ es1" "\<forall>e\<in>set es1. ?P e"
    using fold_listener_adds [of "\<lambda>s. True" "create_bone scale" ?P ?s0 "bones_data data"]
      adds_create_bone by blast
  obtain es2 where es2: "listener (snd ?s2) = listener (snd ?s1) @ es2" "\<forall>e\<in>set es2. ?P e"
    using fold_listener_adds [of "\<lambda>s. True" set_parent ?P ?s1 "bones_data data"]
      adds_set_parent by blast
  let ?es = "(INFO, ''creating bones'', []) # es1 @ es2 @ [(INFO, ''bones and parent links created'', [])]"
  have l: "listener (snd (create_bones data scale h)) = listener h @ ?es"
    using es1(1) es2(1) by (simp add: create_bones_def Let_def)
  have "\<forall>e\<in>set ?es. ?P e" using es1(2) es2(2) by auto
  with l show ?thesis unfolding printed_append [OF l] by blast
qed

lemma create_bones_improved_printed:
  "listener (snd (create_bones_improved data scale h))
     = listener h @ printed h (snd (create_bones_improved data scale h))
   \<and> (\<forall>e\<in>set (printed h (snd (create_bones_improved data scale h))).
        fst e = INFO \<or> bone_report_improved (fst (create_bones_improved data scale h)) e)"
proof (cases "bones_data data = []")
  case True
  have l: "listener (snd (create_bones_improved data scale h))
             = listener h @ [(WARNING, ''no bone data found'', [])]"
    using True by (simp add: create_bones_improved_def)
  show ?thesis
    unfolding printed_append [OF l] by (simp add: l bone_report_improved_def)
next
  case False
  let ?bm = "fst (create_bones_improved data scale h)"
  let ?P = "\<lambda>e. fst e = INFO \<or> bone_report_improved ?bm e"
  let ?s0 = "(Map.empty :: bone_map, debug_print (INFO, ''creating bones'', []) h)"
  let ?s1 = "fold (create_bone_improved scale) (bones_data data) ?s0"
  let ?s2 = "fold set_parent_improved (bones_data data) ?s1"
  have bm: "?bm = fst ?s2" using False by (simp add: create_bones_improved_def Let_def)
  have q: "\<forall>p. fst ?s1 p = None \<longleftrightarrow> ?bm p = None"
    by (simp add: bm fst_fold_set_parent_improved)
  obtain es1 where es1: "listener (snd ?s1) = listener (snd ?s0) @ es1" "\<forall>e\<in>set es1. ?P e"
    using fold_listener_adds [of "\<lambda>s. True" "create_bone_improved scale" ?P ?s0 "bones_data data"]
      adds_create_bone_improved [of scale _ _ ?bm] by blast
  obtain es2 where es2: "listener (snd ?s2) = listener (snd ?s1) @ es2" "\<forall>e\<in>set es2. ?P e"
    using fold_listener_adds [of "\<lambda>s. \<forall>p. fst s p = None \<longleftrightarrow> ?bm p = None"
        set_parent_improved ?P ?s1 "bones_data data"]
      adds_set_parent_improved [of _ ?bm] q by blast
  let ?es = "(INFO, ''creating bones'', []) # es1 @ es2 @ [(INFO, ''bones created'', [])]"
  have l: "listener (snd (create_bones_improved data scale h)) = listener h @ ?es"
    using es1(1) es2(1) False by (simp add: create_bones_improved_def Let_def)
  have "\<forall>e\<in>set ?es. ?P e" using es1(2) es2(2) by auto
  with l show ?thesis unfolding printed_append [OF l] by blast
qed

section \<open>Evaluation of the example skeletons\<close>

lemma E1: "safe_str (JStr (lit ''a'')) = lit ''a''" "safe_str (JStr (lit ''ghost'')) = lit ''ghost''"
  "safe_str (JStr []) = []" "safe_str (JStr (lit ''s'')) = lit ''s''" "safe_str JNull = []"
  by (simp_all add: strip_def replace_char_def is_space_def lit_def)

lemma E2: "safe_str_improved (JStr (lit ''a'')) = lit ''a''"
  "safe_str_improved (JStr (lit ''ghost'')) = lit ''ghost''"
  "safe_str_improved (JStr []) = []" "safe_str_improved (JStr (lit ''s'')) = lit ''s''"
  by (simp_all add: replace_char_def lit_def)

lemma named_bone_fields [simp]:
  "b_name (named_bone n p) = Some (JStr (lit n))"
  "b_parent (named_bone n p) = map_option (\<lambda>s. JStr (lit s)) p"
  "b_rotation (named_bone n p) = None"
  by (simp_all add: named_bone_def)

lemma lit_distinct [simp]: "lit ''a'' \<noteq> lit ''s''" "lit ''s'' \<noteq> lit ''a''"
  "lit ''a'' \<noteq> []" "lit ''s'' \<noteq> []" "lit ''ghost'' \<noteq> []" "lit ''ghost'' \<noteq> lit ''a''"
  "lit ''a'' \<noteq> lit ''ghost''"
  by (simp_all add: lit_def)

lemma bone_geometry_named [simp]:
  "bone_geometry (Fin 1) (named_bone n p) = Inr (Fin 0, Fin 0, Fin 1)"
  by (simp add: bone_geometry_def named_bone_def lit_0_1_finite)

lemmas skeleton_eval =
  create_bones_def create_bones_improved_def skeleton_def
  bones_data_def create_bone_def create_bone_improved_def set_parent_def set_parent_improved_def
  parent_name_of_def parent_name_improved_def bone_name_improved_def Let_def
  E1 E2 debug_print_def host0_def

text \<open>
  Claim C6, as the code has it: neither file looks for cycles.  The parent of every bone of
  the result is the parent of the last declaration for that bone whose parent is non-empty
  and a key of the map, self-parenting and cycles included.  The parent graph is therefore
  acyclic whenever the declared parent links are.  Of what \<open>create_bones\<close> prints, every
  entry above the default level is one of the reports listed in \<open>bone_report\<close> and
  \<open>bone_report_improved\<close>, none of which is about a cycle.
\<close>

theorem parent_links_as_declared:
  "(fst (create_bones data scale h) n = Some b \<longrightarrow>
      bo_parent b = resolved_parent (fst (create_bones data scale h)) (map declares (bones_data data)) n)
   \<and> (fst (create_bones_improved data scale h) n = Some b' \<longrightarrow>
      bo_parent b' = resolved_parent (fst (create_bones_improved data scale h))
                       (map declares_improved (bones_data data)) n)
   \<and> (acyclic (declared_links (map declares (bones_data data))) \<longrightarrow>
        acyclic (parent_rel (fst (create_bones data scale h))))
   \<and> (acyclic (declared_links (map declares_improved (bones_data data))) \<longrightarrow>
        acyclic (parent_rel (fst (create_bones_improved data scale h))))
   \<and> listener (snd (create_bones data scale h))
       = listener h @ printed h (snd (create_bones data scale h))
   \<and> (\<forall>e\<in>set (printed h (snd (create_bones data scale h))). fst e = INFO \<or> bone_report e)
   \<and> listener (snd (create_bones_improved data scale h))
       = listener h @ printed h (snd (create_bones_improved data scale h))
   \<and> (\<forall>e\<in>set (printed h (snd (create_bones_improved data scale h))).
        fst e = INFO \<or> bone_report_improved (fst (create_bones_improved data scale h)) e)"
  using create_bones_parent create_bones_improved_parent
    acyclic_parent_rel [of "fst (create_bones data scale h)" "map declares (bones_data data)"]
    acyclic_parent_rel [of "fst (create_bones_improved data scale h)"
        "map declares_improved (bones_data data)"]
    create_bones_printed [of data scale h] create_bones_improved_printed [of data scale h]
  by blast

lemma two_bones_keys:
  "fst (create_bones (skeleton [named_bone ''a'' None, named_bone ''s'' (Some ''a'')]) (Fin 1) host0)
     (lit ''s'') \<noteq> None"
  "fst (create_bones (skeleton [named_bone ''a'' None, named_bone ''s'' (Some ''a'')]) (Fin 1) host0)
     (lit ''a'') \<noteq> None"
  "fst (create_bones_improved (skeleton [named_bone ''a'' None, named_bone ''s'' (Some ''a'')])
     (Fin 1) host0) (lit ''s'') \<noteq> None"
  "fst (create_bones_improved (skeleton [named_bone ''a'' None, named_bone ''s'' (Some ''a'')])
     (Fin 1) host0) (lit ''a'') \<noteq> None"
  by (simp_all add: skeleton_eval del: safe_str.simps(2) safe_str_improved.simps(2))

lemma two_bones_declared:
  "map declares (bones_data (skeleton [named_bone ''a'' None, named_bone ''s'' (Some ''a'')]))
     = [Some (lit ''a'', []), Some (lit ''s'', lit ''a'')]"
  "map declares_improved (bones_data (skeleton [named_bone ''a'' None, named_bone ''s'' (Some ''a'')]))
     = [Some (lit ''a'', []), Some (lit ''s'', lit ''a'')]"
  by (simp_all add: declares_def declares_improved_def skeleton_def bones_data_def
      parent_name_of_def parent_name_improved_def bone_name_improved_def E1 E2
      del: safe_str.simps(2) safe_str_improved.simps(2))

lemma acyclic_two_bones:
  "acyclic (declared_links [Some (lit ''a'', []), Some (lit ''s'', lit ''a'')])"
proof -
  have l: "declared_links [Some (lit ''a'', []), Some (lit ''s'', lit ''a'')]
             = {(lit ''s'', lit ''a'')}"
    by (auto simp: declared_links_def)
  have "acyclic ({} :: (ustring \<times> ustring) set)"
    by (simp add: acyclic_def)
  then show ?thesis
    by (simp add: l acyclic_insert)
qed

theorem parent_links_as_declared_witness:
  "map_option bo_parent
      (fst (create_bones (skeleton [named_bone ''a'' None, named_bone ''s'' (Some ''a'')])
         (Fin 1) host0) (lit ''s'')) = Some (Some (lit ''a''))
   \<and> map_option bo_parent
      (fst (create_bones_improved (skeleton [named_bone ''a'' None, named_bone ''s'' (Some ''a'')])
         (Fin 1) host0) (lit ''s'')) = Some (Some (lit ''a''))
   \<and> acyclic (parent_rel (fst (create_bones
        (skeleton [named_bone ''a'' None, named_bone ''s'' (Some ''a'')]) (Fin 1) host0)))
   \<and> acyclic (parent_rel (fst (create_bones_improved
        (skeleton [named_bone ''a'' None, named_bone ''s'' (Some ''a'')]) (Fin 1) host0)))
   \<and> list_all (\<lambda>e. fst e = INFO \<or> bone_report e)
        (listener (snd (create_bones
          (skeleton [named_bone ''a'' None, named_bone ''s'' (Some ''a'')]) (Fin 1) host0)))"
proof -
  let ?d = "skeleton [named_bone ''a'' None, named_bone ''s'' (Some ''a'')]"
  obtain b where b: "fst (create_bones ?d (Fin 1) host0) (lit ''s'') = Some b"
    using two_bones_keys(1) by blast
  obtain b' where b': "fst (create_bones_improved ?d (Fin 1) host0) (lit ''s'') = Some b'"
    using two_bones_keys(3) by blast
  have r: "resolved_parent (fst (create_bones ?d (Fin 1) host0))
             [Some (lit ''a'', []), Some (lit ''s'', lit ''a'')] (lit ''s'') = Some (lit ''a'')"
    using two_bones_keys(2) by (simp add: resolved_parent_def resolvable_def)
  have r': "resolved_parent (fst (create_bones_improved ?d (Fin 1) host0))
             [Some (lit ''a'', []), Some (lit ''s'', lit ''a'')] (lit ''s'') = Some (lit ''a'')"
    using two_bones_keys(4) by (simp add: resolved_parent_def resolvable_def)
  have l0: "listener host0 = []" by (simp add: host0_def)
  show ?thesis
    using parent_links_as_declared [of ?d "Fin 1" host0 "lit ''s''" b b'] b b' r r'
      acyclic_two_bones
    by (simp add: two_bones_declared l0 list_all_iff)
qed

text \<open>
  Claim C6 as stated: a bone that names itself as its parent becomes its own parent in
  both files, so that the parent graph has a cycle and no bone is a root, and the listener
  holds no warning and no error.
\<close>

theorem self_parent_counterexample:
  "map_option bo_parent
      (fst (create_bones (skeleton [named_bone ''a'' (Some ''a'')]) (Fin 1) host0) (lit ''a''))
     = Some (Some (lit ''a''))
   \<and> filter (\<lambda>e. fst e \<noteq> INFO)
        (listener (snd (create_bones (skeleton [named_bone ''a'' (Some ''a'')]) (Fin 1) host0))) = []
   \<and> map_option bo_parent
        (fst (create_bones_improved (skeleton [named_bone ''a'' (Some ''a'')]) (Fin 1) host0)
          (lit ''a''))
     = Some (Some (lit ''a''))
   \<and> filter (\<lambda>e. fst e \<noteq> INFO)
        (listener (snd (create_bones_improved (skeleton [named_bone ''a'' (Some ''a'')])
          (Fin 1) host0))) = []
   \<and> \<not> acyclic (parent_rel
        (fst (create_bones (skeleton [named_bone ''a'' (Some ''a'')]) (Fin 1) host0)))
   \<and> \<not> acyclic (parent_rel
        (fst (create_bones_improved (skeleton [named_bone ''a'' (Some ''a'')]) (Fin 1) host0)))"
proof -
  let ?d = "skeleton [named_bone ''a'' (Some ''a'')]"
  have e: "map_option bo_parent (fst (create_bones ?d (Fin 1) host0) (lit ''a''))
             = Some (Some (lit ''a''))"
    "filter (\<lambda>e. fst e \<noteq> INFO) (listener (snd (create_bones ?d (Fin 1) host0))) = []"
    "map_option bo_parent (fst (create_bones_improved ?d (Fin 1) host0) (lit ''a''))
             = Some (Some (lit ''a''))"
    "filter (\<lambda>e. fst e \<noteq> INFO) (listener (snd (create_bones_improved ?d (Fin 1) host0))) = []"
    by (simp_all add: skeleton_eval new_bone_def
        del: safe_str.simps(2) safe_str_improved.simps(2))
  from e(1) have "(lit ''a'', lit ''a'') \<in> parent_rel (fst (create_bones ?d (Fin 1) host0))"
    by (auto simp: parent_rel_def)
  then have c: "\<not> acyclic (parent_rel (fst (create_bones ?d (Fin 1) host0)))"
    by (auto simp: acyclic_def)
  from e(3) have "(lit ''a'', lit ''a'') \<in> parent_rel (fst (create_bones_improved ?d (Fin 1) host0))"
    by (auto simp: parent_rel_def)
  then have c': "\<not> acyclic (parent_rel (fst (create_bones_improved ?d (Fin 1) host0)))"
    by (auto simp: acyclic_def)
  show ?thesis using e c c' by blast
qed

section \<open>No dangling parent\<close>

lemma listener_create_bone_improved:
  "set (listener (snd s)) \<subseteq> set (listener (snd (create_bone_improved scale bone s)))"
  by (auto simp: create_bone_improved_def Let_def split: sum.splits option.splits prod.splits)

lemma listener_set_parent_improved:
  "set (listener (snd s)) \<subseteq> set (listener (snd (set_parent_improved bone s)))"
  by (auto simp: set_parent_improved_def Let_def split: option.splits)

lemma set_parent_improved_None_iff:
  "fst (set_parent_improved bone s) p = None \<longleftrightarrow> fst s p = None"
  by (simp add: fst_set_parent_improved)

lemma create_bones_improved_warns_absent_parent:
  assumes "bone \<in> set (bones_data data)" and "parent_name_improved bone \<noteq> []"
    and "fst (create_bones_improved data scale h) (parent_name_improved bone) = None"
  shows "(WARNING, ''parent bone does not exist'', [parent_name_improved bone])
           \<in> set (listener (snd (create_bones_improved data scale h)))"
proof -
  let ?p = "parent_name_improved bone"
  let ?s1 = "fold (create_bone_improved scale) (bones_data data)
               (Map.empty, debug_print (INFO, ''creating bones'', []) h)"
  from assms(1) have ne: "bones_data data \<noteq> []" by auto
  have "fst (create_bones_improved data scale h) = fold apply_decl (map declares_improved (bones_data data)) (fst ?s1)"
    using ne by (simp add: create_bones_improved_def Let_def fst_fold_set_parent_improved)
  with assms(3) have absent: "fst ?s1 ?p = None" by simp
  have "(WARNING, ''parent bone does not exist'', [?p])
          \<in> set (listener (snd (fold set_parent_improved (bones_data data) ?s1)))"
  proof (rule fold_listener_emits [where Q = "\<lambda>s. fst s ?p = None" and x = bone])
    show "\<And>y s. set (listener (snd s)) \<subseteq> set (listener (snd (set_parent_improved y s)))"
      by (rule listener_set_parent_improved)
    show "\<And>y s. fst s ?p = None \<Longrightarrow> fst (set_parent_improved y s) ?p = None"
      by (simp add: set_parent_improved_None_iff)
    show "\<And>s. fst s ?p = None \<Longrightarrow>
        (WARNING, ''parent bone does not exist'', [?p]) \<in> set (listener (snd (set_parent_improved bone s)))"
      using assms(2) by (simp add: set_parent_improved_def Let_def)
    show "bone \<in> set (bones_data data)" by (rule assms(1))
    show "fst ?s1 ?p = None" by (rule absent)
  qed
  then show ?thesis using ne by (simp add: create_bones_improved_def Let_def)
qed

text \<open>
  Claim C3 in \<^verbatim>\<open>spine_importer.py\<close>: a bone whose declared parent is not in the map
  stays a root, but the listener receives no warning; the improved file prints one.
\<close>

theorem absent_parent_not_reported:
  "map_option bo_parent
      (fst (create_bones (skeleton [named_bone ''a'' (Some ''ghost'')]) (Fin 1) host0) (lit ''a''))
     = Some None
   \<and> warnings (listener (snd (create_bones (skeleton [named_bone ''a'' (Some ''ghost'')])
        (Fin 1) host0))) = []
   \<and> warnings (listener (snd (create_bones_improved (skeleton [named_bone ''a'' (Some ''ghost'')])
        (Fin 1) host0)))
     = [(WARNING, ''parent bone does not exist'', [lit ''ghost''])]"
  by (simp add: skeleton_eval new_bone_def warnings_def
      del: safe_str.simps(2) safe_str_improved.simps(2))

section \<open>Nameless bones\<close>

lemma create_bone_improved_no_empty_key:
  "fst s [] = None \<Longrightarrow> fst (create_bone_improved scale bone s) [] = None"
  by (auto simp: create_bone_improved_def Let_def split: sum.splits option.splits prod.splits)

lemma fold_create_bone_improved_no_empty_key:
  "fst s [] = None \<Longrightarrow> fst (fold (create_bone_improved scale) bones s) [] = None"
  by (induction bones arbitrary: s) (simp_all add: create_bone_improved_no_empty_key)

lemma create_bones_improved_no_empty_key:
  "fst (create_bones_improved data scale h) [] = None"
  by (simp add: create_bones_improved_def Let_def fst_fold_set_parent_improved
      fold_create_bone_improved_no_empty_key)

lemma create_bones_improved_warns_nameless:
  assumes "bone \<in> set (bones_data data)" and "bone_name_improved bone = []"
  shows "(WARNING, ''skipping nameless bone'', [])
           \<in> set (listener (snd (create_bones_improved data scale h)))"
proof -
  let ?s0 = "(Map.empty :: bone_map, debug_print (INFO, ''creating bones'', []) h)"
  let ?s1 = "fold (create_bone_improved scale) (bones_data data) ?s0"
  from assms(1) have ne: "bones_data data \<noteq> []" by auto
  have "(WARNING, ''skipping nameless bone'', []) \<in> set (listener (snd ?s1))"
  proof (rule fold_listener_emits [where Q = "\<lambda>s. True" and x = bone])
    show "\<And>y s. set (listener (snd s)) \<subseteq> set (listener (snd (create_bone_improved scale y s)))"
      by (rule listener_create_bone_improved)
    show "\<And>s. True \<Longrightarrow>
        (WARNING, ''skipping nameless bone'', []) \<in> set (listener (snd (create_bone_improved scale bone s)))"
      using assms(2) by (simp add: create_bone_improved_def Let_def)
    show "bone \<in> set (bones_data data)" by (rule assms(1))
  qed simp_all
  with fold_listener_mono [of set_parent_improved ?s1 "bones_data data", OF listener_set_parent_improved]
  show ?thesis using ne by (auto simp: create_bones_improved_def Let_def)
qed

lemma create_bones_improved_parent_not_empty:
  assumes "fst (create_bones_improved data scale h) n = Some b" and "bo_parent b = Some p"
  shows "p \<noteq> []"
proof -
  have "fst (create_bones_improved data scale h) p \<noteq> None"
    using create_bones_improved_parents_in_map [of data scale h] assms
    unfolding parents_in_map_def by blast
  then show ?thesis using create_bones_improved_no_empty_key [of data scale h] by auto
qed

lemma pl_parent_dress_plane_improved:
  "pl_parent (fst (dress_plane_improved tx n a pl)) = pl_parent pl"
  by (auto simp: dress_plane_improved_def Let_def split: option.splits sum.splits prod.splits)

lemma planes_create_mesh_improved:
  assumes "pl \<in> set (planes (create_mesh_improved bm tx slot h))"
  shows "pl \<in> set (planes h) \<or> bm (pl_parent pl) \<noteq> None"
proof -
  let ?sn = "safe_str_improved (case s_name slot of None \<Rightarrow> JStr [] | Some j \<Rightarrow> j)"
  let ?bn = "safe_str_improved (case s_bone slot of None \<Rightarrow> JStr [] | Some j \<Rightarrow> j)"
  obtain pl' msgs raised where
    d: "dress_plane_improved tx ?sn (s_attachment slot) (new_plane ?sn ?bn) = (pl', msgs, raised)"
    by (cases "dress_plane_improved tx ?sn (s_attachment slot) (new_plane ?sn ?bn)") auto
  have p: "pl_parent pl' = ?bn"
    using pl_parent_dress_plane_improved [of tx ?sn "s_attachment slot" "new_plane ?sn ?bn"] d
    by (simp add: new_plane_def)
  show ?thesis
  proof (cases "?sn = [] \<or> bm ?bn = None")
    case True
    with assms show ?thesis
      by (auto simp: create_mesh_improved_def Let_def debug_print_def split: if_splits)
  next
    case False
    with assms d have "pl \<in> set (planes h) \<or> pl = pl'"
      by (auto simp: create_mesh_improved_def Let_def debug_print_def debug_prints_def
          split: if_splits)
    with p False show ?thesis by auto
  qed
qed

lemma planes_fold_create_mesh_improved:
  "pl \<in> set (planes (fold (create_mesh_improved bm tx) slots h)) \<Longrightarrow>
   pl \<in> set (planes h) \<or> bm (pl_parent pl) \<noteq> None"
proof (induction slots arbitrary: h)
  case Nil
  then show ?case by simp
next
  case (Cons slot slots)
  then have "pl \<in> set (planes (create_mesh_improved bm tx slot h)) \<or> bm (pl_parent pl) \<noteq> None"
    by simp
  then show ?case using planes_create_mesh_improved by blast
qed

lemma planes_create_meshes_improved:
  "pl \<in> set (planes (create_meshes_improved data bm tx h)) \<Longrightarrow>
   pl \<in> set (planes h) \<or> bm (pl_parent pl) \<noteq> None"
  using planes_fold_create_mesh_improved [of pl bm tx "slots_data data"
      "debug_print (INFO, ''creating meshes'', []) h"]
  by (auto simp: create_meshes_improved_def debug_print_def split: if_splits)

text \<open>
  Claim C7 in \<^verbatim>\<open>spine_importer.py\<close>: a bone with the empty name is created, stored
  under the empty key without a warning, and a slot that names the empty bone gets its
  plane.  The improved file skips the bone with a warning and creates no plane.
\<close>

theorem empty_name_not_skipped:
  "fst (create_bones (skeleton_with_slots [named_bone [] None] [bare_slot ''s'' []]) (Fin 1) host0) []
     = Some (new_bone [] (Fin 0) (Fin 0) (Fin 1))
   \<and> warnings (listener (snd (create_bones
        (skeleton_with_slots [named_bone [] None] [bare_slot ''s'' []]) (Fin 1) host0))) = []
   \<and> planes (create_meshes (skeleton_with_slots [named_bone [] None] [bare_slot ''s'' []])
        (fst (create_bones (skeleton_with_slots [named_bone [] None] [bare_slot ''s'' []])
           (Fin 1) host0))
        Map.empty host0) = [new_plane (lit ''s'') []]
   \<and> fst (create_bones_improved
        (skeleton_with_slots [named_bone [] None] [bare_slot ''s'' []]) (Fin 1) host0) [] = None
   \<and> warnings (listener (snd (create_bones_improved
        (skeleton_with_slots [named_bone [] None] [bare_slot ''s'' []]) (Fin 1) host0)))
     = [(WARNING, ''skipping nameless bone'', [])]
   \<and> planes (create_meshes_improved (skeleton_with_slots [named_bone [] None] [bare_slot ''s'' []])
        (fst (create_bones_improved (skeleton_with_slots [named_bone [] None] [bare_slot ''s'' []])
           (Fin 1) host0))
        Map.empty host0) = []"
  by (simp add: skeleton_eval skeleton_with_slots_def bare_slot_def slots_data_def
      create_meshes_def create_meshes_improved_def create_mesh_def create_mesh_improved_def
      dress_plane_def dress_plane_improved_def debug_prints_def warnings_def
      del: safe_str.simps(2) safe_str_improved.simps(2))

section \<open>Properties of the atlas parser\<close>

lemma texture_line_rotate_unset:
  assumes "startswith (strip raw) (lit ''rotate:'')" and "\<not> endswith (strip raw) (lit ''.png'')"
    and "\<not> is_set cur"
  shows "texture_line e texture_dir raw (tx, cur, h) = (tx, cur, h)"
  using assms by (auto simp: texture_line_def Let_def)

lemma texture_line_improved_rotate_unset:
  assumes "startswith (strip raw) (lit ''rotate:'')" and "\<not> endswith (strip raw) (lit ''.png'')"
    and "\<not> is_set cur"
  shows "texture_line_improved e texture_dir raw (tx, cur, h) = (tx, cur, h)"
  using assms by (auto simp: texture_line_improved_def Let_def)

text \<open>
  Claim C10: while no region has been registered (\<open>current_texture\<close> is still \<open>None\<close>), a
  line that starts with \<^verbatim>\<open>rotate:\<close> and is not an image line is ignored by both files:
  the table, the current region and the host with its listener stay as they are, and the
  loop goes on with the next line.
\<close>

theorem rotate_before_first_region_ignored:
  assumes "startswith (strip raw) (lit ''rotate:'')" and "\<not> endswith (strip raw) (lit ''.png'')"
  shows "texture_line e texture_dir raw (tx, None, h) = (tx, None, h)
       \<and> texture_line_improved e texture_dir raw (tx, None, h) = (tx, None, h)
       \<and> fold (texture_line e texture_dir) (raw # rest) (Map.empty, None, h)
           = fold (texture_line e texture_dir) rest (Map.empty, None, h)
       \<and> fold (texture_line_improved e texture_dir) (raw # rest) (Map.empty, None, h)
           = fold (texture_line_improved e texture_dir) rest (Map.empty, None, h)"
  using assms by (simp add: texture_line_rotate_unset texture_line_improved_rotate_unset)

text \<open>
  A line that begins with a no-break space and a file separator (U+00A0, U+001C) and ends
  with a next-line character and a newline (U+0085, U+000A): \<^verbatim>\<open>strip\<close> removes them all.
\<close>

lemma strip_rotate_90:
  "strip ([160, 28] @ lit ''  rotate: 90'' @ [133, 10]) = lit ''rotate: 90''"
  by (simp add: strip_def is_space_def lit_def)

theorem rotate_before_first_region_ignored_witness:
  "texture_line (atlas_env []) (lit ''tex'') ([160, 28] @ lit ''  rotate: 90'' @ [133, 10])
      (Map.empty, None, host0) = (Map.empty, None, host0)
   \<and> texture_line_improved (atlas_env []) (lit ''tex'')
        ([160, 28] @ lit ''  rotate: 90'' @ [133, 10]) (Map.empty, None, host0)
       = (Map.empty, None, host0)"
proof -
  let ?raw = "[160, 28] @ lit ''  rotate: 90'' @ [133, 10]"
  have a: "startswith (strip ?raw) (lit ''rotate:'')" by (simp only: strip_rotate_90) simp
  have b: "\<not> endswith (strip ?raw) (lit ''.png'')" by (simp only: strip_rotate_90) simp
  show ?thesis
    using rotate_before_first_region_ignored [OF a b, of "atlas_env []" "lit ''tex''" Map.empty
        host0 "[]"]
    by simp
qed

section \<open>Redeclared regions\<close>

text \<open>
  In the improved file a line that names a region already in the table changes neither
  the table nor the current region; it prints one message at the default level.
\<close>

lemma texture_line_improved_redeclared:
  assumes "endswith (strip raw) (lit ''.png'')"
    and "path_exists e (path_join e texture_dir (strip raw))"
    and "tx (split_first 46 (strip raw)) \<noteq> None"
  shows "texture_line_improved e texture_dir raw (tx, cur, h) =
           (tx, cur, debug_print (INFO, ''texture already exists, skipping'',
                       [split_first 46 (strip raw)]) h)"
proof -
  have "\<not> endswith [] (lit ''.png'')" by (simp add: lit_def)
  with assms(1) have "strip raw \<noteq> []" by auto
  with assms show ?thesis by (auto simp: texture_line_improved_def Let_def)
qed

text \<open>No line of the improved file replaces the file of a region that is in the table.\<close>

lemma texture_line_improved_keeps_file:
  assumes "fst s n = Some t"
  shows "\<exists>t'. fst (texture_line_improved e texture_dir raw s) n = Some t'
            \<and> tx_filename t' = tx_filename t"
  using assms
  by (auto simp: texture_line_improved_def Let_def split: option.splits)

lemma fold_texture_line_improved_keeps_file:
  assumes "fst s n = Some t"
  shows "\<exists>t'. fst (fold (texture_line_improved e texture_dir) lines s) n = Some t'
            \<and> tx_filename t' = tx_filename t"
  using assms
proof (induction lines arbitrary: s t)
  case Nil
  then show ?case by simp
next
  case (Cons raw lines)
  from texture_line_improved_keeps_file [OF Cons.prems, of e texture_dir raw]
  obtain t1 where "fst (texture_line_improved e texture_dir raw s) n = Some t1"
    and "tx_filename t1 = tx_filename t" by blast
  with Cons.IH [of "texture_line_improved e texture_dir raw s" t1] show ?case by simp
qed

text \<open>
  The table does not depend on the host: two calls on the same atlas and file system give
  the same table.
\<close>

lemma texture_line_improved_host_independent:
  "fst (texture_line_improved e d raw (tx, cur, h)) = fst (texture_line_improved e d raw (tx, cur, h'))
   \<and> fst (snd (texture_line_improved e d raw (tx, cur, h)))
       = fst (snd (texture_line_improved e d raw (tx, cur, h')))"
  by (auto simp: texture_line_improved_def Let_def split: option.splits)

lemma fold_texture_line_improved_host_independent:
  "fst s = fst s' \<Longrightarrow> fst (snd s) = fst (snd s') \<Longrightarrow>
   fst (fold (texture_line_improved e d) lines s) = fst (fold (texture_line_improved e d) lines s')"
proof (induction lines arbitrary: s s')
  case Nil
  then show ?case by simp
next
  case (Cons raw lines)
  obtain tx cur h where s: "s = (tx, cur, h)" by (cases s) auto
  obtain tx' cur' h' where s': "s' = (tx', cur', h')" by (cases s') auto
  from Cons.prems s s' have eq: "tx' = tx" "cur' = cur" by simp_all
  show ?case
    using Cons.IH [of "texture_line_improved e d raw s" "texture_line_improved e d raw s'"]
      texture_line_improved_host_independent [of e d raw tx cur h h']
    by (simp add: s s' eq)
qed

lemma load_textures_improved_host_independent:
  "fst (load_textures_improved e atlas_path texture_dir h)
     = fst (load_textures_improved e atlas_path texture_dir h')"
  using fold_texture_line_improved_host_independent
    [of "(Map.empty, None, h)" "(Map.empty, None, h')" e texture_dir]
  by (auto simp: load_textures_improved_def Let_def split: prod.splits bool.splits option.splits)

lemma strip_lines:
  "strip (lit ''a.png'') = lit ''a.png''" "strip (lit ''  rotate: 90'') = lit ''rotate: 90''"
  by (simp_all add: strip_def is_space_def lit_def)

lemma split_lines:
  "split_first 46 (lit ''a.png'') = lit ''a''" "split_second 58 (lit ''rotate: 90'') = lit '' 90''"
  by (simp_all add: split_first_def split_second_def lit_def)

text \<open>
  Claim C2 in \<^verbatim>\<open>spine_importer.py\<close>: the second declaration of region \<open>a\<close> replaces
  the first one, whose rotation is lost, and nothing is printed about it.  The improved
  file keeps the region with its rotation and prints a message.
\<close>

theorem redeclared_region_overwritten:
  "fst (load_textures (atlas_env [''a.png'', ''  rotate: 90'', ''a.png''])
        (lit ''x.atlas'') (lit ''tex'') host0) (lit ''a'')
     = Some \<lparr>tx_filename = lit ''tex/a.png'', tx_rotation = None\<rparr>
   \<and> bitmaps (snd (load_textures (atlas_env [''a.png'', ''  rotate: 90'', ''a.png''])
        (lit ''x.atlas'') (lit ''tex'') host0)) = 2
   \<and> (INFO, ''texture already exists, skipping'', [lit ''a''])
        \<notin> set (listener (snd (load_textures (atlas_env [''a.png'', ''  rotate: 90'', ''a.png''])
              (lit ''x.atlas'') (lit ''tex'') host0)))
   \<and> fst (load_textures_improved (atlas_env [''a.png'', ''  rotate: 90'', ''a.png''])
        (lit ''x.atlas'') (lit ''tex'') host0) (lit ''a'')
     = Some \<lparr>tx_filename = lit ''tex/a.png'', tx_rotation = Some (Fin 90)\<rparr>
   \<and> bitmaps (snd (load_textures_improved (atlas_env [''a.png'', ''  rotate: 90'', ''a.png''])
        (lit ''x.atlas'') (lit ''tex'') host0)) = 1
   \<and> (INFO, ''texture already exists, skipping'', [lit ''a''])
        \<in> set (listener (snd (load_textures_improved (atlas_env [''a.png'', ''  rotate: 90'', ''a.png''])
              (lit ''x.atlas'') (lit ''tex'') host0)))"
  by (simp add: load_textures_def load_textures_improved_def validate_file_path_def atlas_env_def
      texture_line_def texture_line_improved_def Let_def strip_lines split_lines
      lit_append debug_print_def host0_def)

section \<open>Properties of the search for animation data\<close>

lemma startswith_iff: "startswith s p \<longleftrightarrow> (\<exists>post. s = p @ post)"
proof
  assume "startswith s p"
  then have "s = p @ drop (length p) s" by (metis append_take_drop_id startswith.simps)
  then show "\<exists>post. s = p @ post" ..
next
  assume "\<exists>post. s = p @ post"
  then show "startswith s p" by auto
qed

text \<open>\<open>contains\<close> is the substring test.\<close>

lemma contains_iff: "contains needle s \<longleftrightarrow> (\<exists>pre post. s = pre @ needle @ post)"
proof (induction s)
  case Nil
  then show ?case by auto
next
  case (Cons c cs)
  show ?case
  proof
    assume "contains needle (c # cs)"
    then consider "startswith (c # cs) needle" | "contains needle cs" by auto
    then show "\<exists>pre post. c # cs = pre @ needle @ post"
    proof cases
      case 1
      then obtain post where "c # cs = needle @ post" using startswith_iff by blast
      then have "c # cs = [] @ needle @ post" by simp
      then show ?thesis by blast
    next
      case 2
      with Cons.IH obtain pre post where "cs = pre @ needle @ post" by blast
      then have "c # cs = (c # pre) @ needle @ post" by simp
      then show ?thesis by blast
    qed
  next
    assume "\<exists>pre post. c # cs = pre @ needle @ post"
    then obtain pre post where e: "c # cs = pre @ needle @ post" by blast
    show "contains needle (c # cs)"
    proof (cases pre)
      case Nil
      with e have "startswith (c # cs) needle" using startswith_iff by (metis append_Nil)
      then show ?thesis by simp
    next
      case (Cons d pre')
      with e have "cs = pre' @ needle @ post" by simp
      with Cons.IH have "contains needle cs" by blast
      then show ?thesis by simp
    qed
  qed
qed

lemma scan_keys_Cons:
  "scan_keys data (k # ks) a =
     (if names_animation k then
        (if truthy (data_get data k)
         then (data_get data k, [(INFO, ''found a possible animation key'', [k])])
         else (fst (scan_keys data ks (data_get data k)),
               (INFO, ''found a possible animation key'', [k])
                 # snd (scan_keys data ks (data_get data k))))
      else scan_keys data ks a)"
  by (simp add: names_animation_def Let_def split: prod.splits)

lemma scan_keys_found:
  "find (\<lambda>k. names_animation k \<and> truthy (data_get data k)) ks = Some k \<Longrightarrow>
   fst (scan_keys data ks a) = data_get data k"
proof (induction ks arbitrary: a)
  case Nil
  then show ?case by simp
next
  case (Cons x ks)
  then show ?case
    by (simp only: scan_keys_Cons find.simps split: if_splits) auto
qed

lemma scan_keys_not_found:
  "find (\<lambda>k. names_animation k \<and> truthy (data_get data k)) ks = None \<Longrightarrow> \<not> truthy a \<Longrightarrow>
   \<not> truthy (fst (scan_keys data ks a))"
proof (induction ks arbitrary: a)
  case Nil
  then show ?case by simp
next
  case (Cons x ks)
  then show ?case
    by (simp only: scan_keys_Cons find.simps split: if_splits) auto
qed

lemma find_animations_fallback:
  assumes "\<not> truthy (data_get data (lit ''animations''))"
  shows "fallback_key data = Some k \<Longrightarrow> fst (find_animations data) = data_get data k"
    and "fallback_key data = None \<Longrightarrow> \<not> truthy (fst (find_animations data))"
  using assms scan_keys_found [of data "map fst data" k "data_get data (lit ''animations'')"]
    scan_keys_not_found [of data "map fst data" "data_get data (lit ''animations'')"]
  by (simp_all add: find_animations_def fallback_key_def)

lemma fallback_key_properties:
  "fallback_key data = Some k \<Longrightarrow>
   k \<in> fst ` set data \<and> names_animation k \<and> truthy (data_get data k)"
  by (auto simp: fallback_key_def find_Some_iff)

text \<open>When nothing is found, the animation importer only prints.\<close>

lemma import_animation_improved_nothing_found:
  assumes "\<not> truthy (data_get data (lit ''animations''))" and "fallback_key data = None"
  shows "import_animation_improved data bm h =
           h\<lparr>listener := listener h
                @ [(INFO, ''analysing the animation data'', []),
                   (INFO, ''trying other animation keys'', [])]
                @ snd (find_animations data)
                @ [(WARNING, ''no animation data found'', [])]\<rparr>"
  using assms find_animations_fallback(2) [OF assms]
  by (cases "find_animations data")
     (simp add: import_animation_improved_def Let_def debug_print_def debug_prints_def)

lemma import_animation_nothing_found:
  assumes "\<not> truthy (data_get data (lit ''animations''))" and "fallback_key data = None"
  shows "import_animation data bm h =
           h\<lparr>listener := listener h
                @ [(INFO, ''analysing the animation data'', []),
                   (INFO, ''data keys'', map fst data),
                   (WARNING, ''no animation data found'', []),
                   (INFO, ''trying other animation keys'', [])]
                @ snd (find_animations data)
                @ [(ERROR, ''still no animation data found'', []),
                   (INFO, ''printing the data structure'', []),
                   (INFO, ''data preview'', [])]\<rparr>"
  using assms find_animations_fallback(2) [OF assms]
  by (cases "find_animations data")
     (simp add: import_animation_def Let_def debug_print_def debug_prints_def)

text \<open>
  When clips are found, the keys baked are those of the clips found: the loops over the
  clips, their bones and their tracks add the keys of every keyframe, in order.
\<close>

lemma radToDeg_debug_prints [simp]: "radToDeg (debug_prints es h) = radToDeg h"
  by (simp add: debug_prints_def)

lemma baked_debug_prints [simp]: "baked (debug_prints es h) = baked h"
  by (simp add: debug_prints_def)

lemma radToDeg_bake_translate [simp]: "radToDeg (bake_translate err b fs h) = radToDeg h"
  by (induction fs arbitrary: h) (auto split: sum.splits)

lemma radToDeg_bake_rotate [simp]: "radToDeg (bake_rotate err b fs h) = radToDeg h"
  by (induction fs arbitrary: h) (auto split: sum.splits)

lemma radToDeg_bake_bones [simp]: "radToDeg (bake_bones bm bs h) = radToDeg h"
  by (induction bs arbitrary: h) (auto simp: Let_def split: option.splits)

lemma radToDeg_bake_bones_improved [simp]: "radToDeg (bake_bones_improved bm bs h) = radToDeg h"
  by (induction bs arbitrary: h) (auto simp: Let_def split: option.splits)

lemma baked_bake_bones:
  "baked (bake_bones bm bs h) =
     baked h @ concat (map (\<lambda>(b, ba).
       if bm (safe_str (JStr b)) = None then []
       else track_keys (radToDeg h) (safe_str (JStr b)) ba) bs)"
  by (induction bs arbitrary: h)
    (auto simp: Let_def track_keys_def baked_bake_translate baked_bake_rotate
      simp del: safe_str.simps split: option.splits cong: if_cong)

lemma baked_bake_bones_improved:
  "baked (bake_bones_improved bm bs h) =
     baked h @ concat (map (\<lambda>(b, ba).
       if bm (safe_str_improved (JStr b)) = None then []
       else track_keys (radToDeg h) (safe_str_improved (JStr b)) ba) bs)"
  by (induction bs arbitrary: h)
    (auto simp: Let_def track_keys_def baked_bake_translate baked_bake_rotate
      simp del: safe_str_improved.simps split: option.splits cong: if_cong)

lemma radToDeg_bake_clips [simp]: "radToDeg (bake_clips bm cs h) = radToDeg h"
  by (induction cs arbitrary: h) auto

lemma radToDeg_bake_clips_improved [simp]:
  "radToDeg (bake_clips_improved bm cs h) = radToDeg h"
  by (induction cs arbitrary: h) auto

lemma baked_bake_clips:
  "baked (bake_clips bm cs h) = baked h @ clip_keys safe_str (radToDeg h) bm cs"
  by (induction cs arbitrary: h)
    (auto simp: clip_keys_def baked_bake_bones simp del: safe_str.simps cong: if_cong)

lemma baked_bake_clips_improved:
  "baked (bake_clips_improved bm cs h) = baked h @ clip_keys safe_str_improved (radToDeg h) bm cs"
  by (induction cs arbitrary: h)
    (auto simp: clip_keys_def baked_bake_bones_improved simp del: safe_str_improved.simps
      cong: if_cong)

lemma log_channels_fields [simp]:
  "baked (log_channels xs m h) = baked h" "radToDeg (log_channels xs m h) = radToDeg h"
  by (induction xs m h rule: log_channels.induct) (auto simp: Let_def split: sum.splits)

lemma log_bones_fields [simp]:
  "baked (log_bones bs m h) = baked h" "radToDeg (log_bones bs m h) = radToDeg h"
  by (induction bs m h rule: log_bones.induct) (auto simp: Let_def split: sum.splits)

lemma log_scan_fields [simp]:
  "baked (log_scan cs m h) = baked h" "radToDeg (log_scan cs m h) = radToDeg h"
  by (induction cs m h rule: log_scan.induct) (auto simp: Let_def split: sum.splits)

lemma import_animation_improved_baked:
  assumes "fst (find_animations data) = VClips cs" "cs \<noteq> []" "anim_length cs = Inr n"
  shows "baked (import_animation_improved data bm h)
           = baked h @ clip_keys safe_str_improved (radToDeg h) bm cs"
  using assms
  by (cases "find_animations data")
    (simp add: import_animation_improved_def Let_def baked_bake_clips_improved)

lemma import_animation_baked:
  assumes "fst (find_animations data) = VClips cs" "cs \<noteq> []" "anim_length cs = Inr n"
  shows "baked (import_animation data bm h) = baked h @ clip_keys safe_str (radToDeg h) bm cs"
  using assms
  by (cases "find_animations data")
    (simp add: import_animation_def Let_def baked_bake_clips split: list.splits option.splits)

text \<open>The import as a whole when nothing is found.\<close>

lemma validate_file_path_ok:
  "p \<noteq> [] \<Longrightarrow> path_exists e p \<Longrightarrow> validate_file_path e p t = (True, [], [])"
  by (simp add: validate_file_path_def)

lemma import_components_nothing_found:
  assumes "\<not> truthy (data_get (doc_toplevel doc) (lit ''animations''))"
    and "fallback_key (doc_toplevel doc) = None"
  shows "fst (import_components e doc ap td scale h) = (''import succeeded'', [])"
    and "animationRange (snd (import_components e doc ap td scale h)) = (0, 100)"
    and "(WARNING, ''no animation data found'', [])
           \<in> set (listener (snd (import_components e doc ap td scale h)))"
    and "last (listener (snd (import_components e doc ap td scale h)))
           = (INFO, ''import succeeded'', [])"
  by (simp_all add: import_components_def Let_def select_bones_def
      import_animation_nothing_found [OF assms] split: prod.splits)

lemma import_components_improved_nothing_found:
  assumes "\<not> truthy (data_get (doc_toplevel doc) (lit ''animations''))"
    and "fallback_key (doc_toplevel doc) = None"
  shows "fst (import_components_improved e doc ap td scale h) = (''import succeeded'', [])"
    and "animationRange (snd (import_components_improved e doc ap td scale h)) = (0, 100)"
    and "(WARNING, ''no animation data found'', [])
           \<in> set (listener (snd (import_components_improved e doc ap td scale h)))"
    and "last (listener (snd (import_components_improved e doc ap td scale h)))
           = (INFO, ''import finished'', [])"
  by (simp_all add: import_components_improved_def Let_def select_bones_def
      import_animation_improved_nothing_found [OF assms] split: prod.splits)

lemma import_spine_loaded:
  assumes "path_exists e jp" "path_exists e ap" "path_exists e td" "load_json e jp = Some doc"
  shows "import_spine e jp ap td scale h =
           import_components e doc ap td scale
             (debug_print (INFO, ''data contains'', map fst (doc_toplevel doc))
               (debug_print (INFO, ''JSON data loaded'', [])
                 (debug_print (INFO, ''loading the JSON data'', [])
                   (debug_print (INFO, ''starting the import'', []) h))))"
  using assms by (simp add: import_spine_def Let_def)

lemma import_spine_improved_loaded:
  assumes "path_exists e jp" "path_exists e ap" "path_exists e td" "load_json e jp = Some doc"
    and "jp \<noteq> []" "ap \<noteq> []" "td \<noteq> []"
  shows "import_spine_improved e jp ap td scale h =
           import_components_improved e doc ap td scale
             (debug_print (INFO, ''JSON data loaded'', [])
               (debug_print (INFO, ''starting the import'', []) h))"
  using assms by (simp add: import_spine_improved_def Let_def validate_file_path_ok)

text \<open>
  Claim C8: when the key \<^verbatim>\<open>animations\<close> is absent or holds an empty value, both files
  take as animation source the value of the first top-level key whose lower-case name
  contains \<^verbatim>\<open>anim\<close> or \<^verbatim>\<open>motion\<close> and whose value is non-empty: when that value is a
  mapping of clips whose length can be computed, the animation range ends at that length
  and the keys baked are the keys of those clips.  Without such a key the animation
  importer changes nothing in the host but the listener, which receives a warning, and
  the import as a whole, for paths that exist and a JSON file that holds the document,
  still returns its success message, prints it last, and leaves the range at its default.
\<close>

theorem fallback_animation_source:
  assumes "\<not> truthy (data_get (doc_toplevel doc) (lit ''animations''))"
  shows "(\<forall>k. fallback_key (doc_toplevel doc) = Some k \<longrightarrow>
            fst (find_animations (doc_toplevel doc)) = data_get (doc_toplevel doc) k)
       \<and> (\<forall>k cs n. fallback_key (doc_toplevel doc) = Some k
              \<and> data_get (doc_toplevel doc) k = VClips cs \<and> anim_length cs = Inr n \<longrightarrow>
            animationRange (import_animation (doc_toplevel doc) bm h) = (0, n)
          \<and> baked (import_animation (doc_toplevel doc) bm h)
              = baked h @ clip_keys safe_str (radToDeg h) bm cs
          \<and> animationRange (import_animation_improved (doc_toplevel doc) bm h) = (0, n)
          \<and> baked (import_animation_improved (doc_toplevel doc) bm h)
              = baked h @ clip_keys safe_str_improved (radToDeg h) bm cs)
       \<and> (fallback_key (doc_toplevel doc) = None \<longrightarrow>
            import_animation_improved (doc_toplevel doc) bm h =
              h\<lparr>listener := listener h
                   @ [(INFO, ''analysing the animation data'', []),
                      (INFO, ''trying other animation keys'', [])]
                   @ snd (find_animations (doc_toplevel doc))
                   @ [(WARNING, ''no animation data found'', [])]\<rparr>
          \<and> import_animation (doc_toplevel doc) bm h =
              h\<lparr>listener := listener h
                   @ [(INFO, ''analysing the animation data'', []),
                      (INFO, ''data keys'', map fst (doc_toplevel doc)),
                      (WARNING, ''no animation data found'', []),
                      (INFO, ''trying other animation keys'', [])]
                   @ snd (find_animations (doc_toplevel doc))
                   @ [(ERROR, ''still no animation data found'', []),
                      (INFO, ''printing the data structure'', []),
                      (INFO, ''data preview'', [])]\<rparr>)
       \<and> (fallback_key (doc_toplevel doc) = None \<and> path_exists e jp \<and> path_exists e ap
            \<and> path_exists e td \<and> load_json e jp = Some doc \<longrightarrow>
            fst (import_spine e jp ap td scale h) = (''import succeeded'', [])
          \<and> last (listener (snd (import_spine e jp ap td scale h)))
              = (INFO, ''import succeeded'', [])
          \<and> (WARNING, ''no animation data found'', [])
              \<in> set (listener (snd (import_spine e jp ap td scale h)))
          \<and> animationRange (snd (import_spine e jp ap td scale h)) = (0, 100)
          \<and> (jp \<noteq> [] \<and> ap \<noteq> [] \<and> td \<noteq> [] \<longrightarrow>
              fst (import_spine_improved e jp ap td scale h) = (''import succeeded'', [])
            \<and> last (listener (snd (import_spine_improved e jp ap td scale h)))
                = (INFO, ''import finished'', [])
            \<and> (WARNING, ''no animation data found'', [])
                \<in> set (listener (snd (import_spine_improved e jp ap td scale h)))
            \<and> animationRange (snd (import_spine_improved e jp ap td scale h)) = (0, 100)))"
proof -
  let ?data = "doc_toplevel doc"
  have 1: "\<forall>k. fallback_key ?data = Some k \<longrightarrow> fst (find_animations ?data) = data_get ?data k"
    using find_animations_fallback(1) [OF assms] by blast
  have 2: "\<forall>k cs n. fallback_key ?data = Some k \<and> data_get ?data k = VClips cs
              \<and> anim_length cs = Inr n \<longrightarrow>
            animationRange (import_animation ?data bm h) = (0, n)
          \<and> baked (import_animation ?data bm h) = baked h @ clip_keys safe_str (radToDeg h) bm cs
          \<and> animationRange (import_animation_improved ?data bm h) = (0, n)
          \<and> baked (import_animation_improved ?data bm h)
              = baked h @ clip_keys safe_str_improved (radToDeg h) bm cs"
  proof (intro allI impI)
    fix k cs n
    assume a: "fallback_key ?data = Some k \<and> data_get ?data k = VClips cs
                 \<and> anim_length cs = Inr n"
    then have src: "fst (find_animations ?data) = VClips cs" using 1 by simp
    from a fallback_key_properties [of ?data k] have ne: "cs \<noteq> []" by auto
    from a have len: "anim_length cs = Inr n" by simp
    show "animationRange (import_animation ?data bm h) = (0, n)
          \<and> baked (import_animation ?data bm h) = baked h @ clip_keys safe_str (radToDeg h) bm cs
          \<and> animationRange (import_animation_improved ?data bm h) = (0, n)
          \<and> baked (import_animation_improved ?data bm h)
              = baked h @ clip_keys safe_str_improved (radToDeg h) bm cs"
      using import_animation_range [OF src ne len, of bm h]
        import_animation_baked [OF src ne len, of bm h]
        import_animation_improved_range [OF src ne len, of bm h]
        import_animation_improved_baked [OF src ne len, of bm h]
      by blast
  qed
  have 3: "fallback_key ?data = None \<longrightarrow>
            import_animation_improved ?data bm h =
              h\<lparr>listener := listener h
                   @ [(INFO, ''analysing the animation data'', []),
                      (INFO, ''trying other animation keys'', [])]
                   @ snd (find_animations ?data)
                   @ [(WARNING, ''no animation data found'', [])]\<rparr>
          \<and> import_animation ?data bm h =
              h\<lparr>listener := listener h
                   @ [(INFO, ''analysing the animation data'', []),
                      (INFO, ''data keys'', map fst ?data),
                      (WARNING, ''no animation data found'', []),
                      (INFO, ''trying other animation keys'', [])]
                   @ snd (find_animations ?data)
                   @ [(ERROR, ''still no animation data found'', []),
                      (INFO, ''printing the data structure'', []),
                      (INFO, ''data preview'', [])]\<rparr>"
    using import_animation_improved_nothing_found [OF assms, of bm h]
      import_animation_nothing_found [OF assms, of bm h]
    by blast
  have 4: "fallback_key ?data = None \<and> path_exists e jp \<and> path_exists e ap
            \<and> path_exists e td \<and> load_json e jp = Some doc \<longrightarrow>
            fst (import_spine e jp ap td scale h) = (''import succeeded'', [])
          \<and> last (listener (snd (import_spine e jp ap td scale h)))
              = (INFO, ''import succeeded'', [])
          \<and> (WARNING, ''no animation data found'', [])
              \<in> set (listener (snd (import_spine e jp ap td scale h)))
          \<and> animationRange (snd (import_spine e jp ap td scale h)) = (0, 100)
          \<and> (jp \<noteq> [] \<and> ap \<noteq> [] \<and> td \<noteq> [] \<longrightarrow>
              fst (import_spine_improved e jp ap td scale h) = (''import succeeded'', [])
            \<and> last (listener (snd (import_spine_improved e jp ap td scale h)))
                = (INFO, ''import finished'', [])
            \<and> (WARNING, ''no animation data found'', [])
                \<in> set (listener (snd (import_spine_improved e jp ap td scale h)))
            \<and> animationRange (snd (import_spine_improved e jp ap td scale h)) = (0, 100))"
    using assms
    by (simp add: import_spine_loaded import_spine_improved_loaded
        import_components_nothing_found import_components_improved_nothing_found)
  from 1 2 3 4 show ?thesis by blast
qed

lemma names_examples:
  "\<not> names_animation (lit ''skeleton'')" "names_animation (lit ''MyAnimData'')"
  "names_animation (lit ''Motions'')" "\<not> names_animation (lit ''bones'')"
  by (simp_all add: names_animation_def lower_def lower_cp_def lit_def)

lemma scenario_B_keys:
  "clip_keys safe_str r2d [lit ''root'' \<mapsto> ()] scenario_B
     = [PosKey (lit ''root'') 0 (Fin 0, Fin 0, Fin 0),
        PosKey (lit ''root'') 30 (lit_0_1, Fin 0, Fin 0),
        PosKey (lit ''root'') 60 (Fin 0, Fin 0, Fin 0)]"
  "clip_keys safe_str_improved r2d [lit ''root'' \<mapsto> ()] scenario_B
     = [PosKey (lit ''root'') 0 (Fin 0, Fin 0, Fin 0),
        PosKey (lit ''root'') 30 (lit_0_1, Fin 0, Fin 0),
        PosKey (lit ''root'') 60 (Fin 0, Fin 0, Fin 0)]"
proof -
  have s: "safe_str (JStr (lit ''root'')) = lit ''root''"
    "safe_str_improved (JStr (lit ''root'')) = lit ''root''"
    by (simp_all add: strip_def replace_char_def is_space_def lit_def)
  have k: "pos_keys (lit ''root'') (kf 0 0 0) = [PosKey (lit ''root'') 0 (Fin 0, Fin 0, Fin 0)]"
    "pos_keys (lit ''root'') (kf 1 10 0) = [PosKey (lit ''root'') 30 (lit_0_1, Fin 0, Fin 0)]"
    "pos_keys (lit ''root'') (kf 2 0 0) = [PosKey (lit ''root'') 60 (Fin 0, Fin 0, Fin 0)]"
    by (simp_all add: pos_keys_def translate_key_def frame_index_def kf_def trunc_def
        ten_hundredths)
  show "clip_keys safe_str r2d [lit ''root'' \<mapsto> ()] scenario_B
     = [PosKey (lit ''root'') 0 (Fin 0, Fin 0, Fin 0),
        PosKey (lit ''root'') 30 (lit_0_1, Fin 0, Fin 0),
        PosKey (lit ''root'') 60 (Fin 0, Fin 0, Fin 0)]"
    by (simp add: clip_keys_def scenario_B_def one_track_def bones_of_def track_keys_def s k
        del: safe_str.simps(2))
  show "clip_keys safe_str_improved r2d [lit ''root'' \<mapsto> ()] scenario_B
     = [PosKey (lit ''root'') 0 (Fin 0, Fin 0, Fin 0),
        PosKey (lit ''root'') 30 (lit_0_1, Fin 0, Fin 0),
        PosKey (lit ''root'') 60 (Fin 0, Fin 0, Fin 0)]"
    by (simp add: clip_keys_def scenario_B_def one_track_def bones_of_def track_keys_def s k
        del: safe_str_improved.simps(2))
qed

lemma anim_length_scenario_B: "anim_length scenario_B = Inr 70"
  by (simp add: scenario_B_def anim_length_one_track kf_def trunc_def)

text \<open>
  A document with its clips under \<^verbatim>\<open>Motions\<close>, behind an empty \<^verbatim>\<open>MyAnimData\<close>: the
  clips of scenario B are baked.  A document with bones only: the import succeeds.
\<close>

theorem fallback_animation_source_witness:
  "fst (find_animations motions_data) = VClips scenario_B
   \<and> animationRange (import_animation motions_data [lit ''root'' \<mapsto> ()] host0) = (0, 70)
   \<and> baked (import_animation motions_data [lit ''root'' \<mapsto> ()] host0)
       = [PosKey (lit ''root'') 0 (Fin 0, Fin 0, Fin 0),
          PosKey (lit ''root'') 30 (lit_0_1, Fin 0, Fin 0),
          PosKey (lit ''root'') 60 (Fin 0, Fin 0, Fin 0)]
   \<and> animationRange (import_animation_improved motions_data [lit ''root'' \<mapsto> ()] host0) = (0, 70)
   \<and> baked (import_animation_improved motions_data [lit ''root'' \<mapsto> ()] host0)
       = [PosKey (lit ''root'') 0 (Fin 0, Fin 0, Fin 0),
          PosKey (lit ''root'') 30 (lit_0_1, Fin 0, Fin 0),
          PosKey (lit ''root'') 60 (Fin 0, Fin 0, Fin 0)]
   \<and> fst (import_spine (json_env (skeleton [named_bone ''root'' None]))
        (lit ''x.json'') (lit ''x.atlas'') (lit ''tex'') (Fin 1) host0) = (''import succeeded'', [])
   \<and> (WARNING, ''no animation data found'', [])
        \<in> set (listener (snd (import_spine_improved (json_env (skeleton [named_bone ''root'' None]))
              (lit ''x.json'') (lit ''x.atlas'') (lit ''tex'') (Fin 1) host0)))"
proof -
  let ?doc = "\<lparr>doc_bones = None, doc_slots = None, doc_toplevel = motions_data\<rparr>"
  let ?sk = "skeleton [named_bone ''root'' None]"
  have ne: "scenario_B \<noteq> []" by (simp add: scenario_B_def one_track_def)
  have a: "\<not> truthy (data_get (doc_toplevel ?doc) (lit ''animations''))"
    by (simp add: data_get_def motions_data_def)
  have k: "fallback_key (doc_toplevel ?doc) = Some (lit ''Motions'')"
    using ne by (simp add: fallback_key_def names_examples data_get_def motions_data_def)
  have v: "data_get (doc_toplevel ?doc) (lit ''Motions'') = VClips scenario_B"
    by (simp add: data_get_def motions_data_def)
  have a': "\<not> truthy (data_get (doc_toplevel ?sk) (lit ''animations''))"
    by (simp add: data_get_def skeleton_def)
  have k': "fallback_key (doc_toplevel ?sk) = None"
    by (simp add: fallback_key_def names_examples skeleton_def)
  have e: "path_exists (json_env ?sk) (lit ''x.json'')" "path_exists (json_env ?sk) (lit ''x.atlas'')"
    "path_exists (json_env ?sk) (lit ''tex'')" "load_json (json_env ?sk) (lit ''x.json'') = Some ?sk"
    by (simp_all add: json_env_def atlas_env_def)
  have b0: "baked host0 = []" by (simp add: host0_def)
  show ?thesis
    using fallback_animation_source [OF a, of "[lit ''root'' \<mapsto> ()]" host0] k v
      anim_length_scenario_B
      fallback_animation_source [OF a', where bm = "Map.empty :: ustring \<rightharpoonup> unit"
        and e = "json_env ?sk" and jp = "lit ''x.json''" and ap = "lit ''x.atlas''" and td = "lit ''tex''" and scale = "Fin 1" and h = host0] k' e
    by (simp add: scenario_B_keys b0)
qed

section \<open>Properties of the entry point\<close>

text \<open>
  Claim C9: when the JSON path does not exist, both files return at once with the error
  message for that path.  The host is left as it was except for the listener: no bitmap,
  no bone node, no plane, no baked key, and the animation range and time slider are
  untouched.
\<close>

theorem missing_json_no_partial_work:
  assumes "\<not> path_exists e json_path"
  shows "import_spine e json_path atlas_path texture_dir scale h =
           ((''JSON file not found'', [json_path]),
            h\<lparr>listener := listener h @ [(INFO, ''starting the import'', []),
                                         (ERROR, ''JSON file not found'', [json_path])]\<rparr>)
       \<and> import_spine_improved e json_path atlas_path texture_dir scale h =
           ((if json_path = [] then (''path is empty'', [lit ''JSON file''])
             else (''does not exist'', [lit ''JSON file'', json_path])),
            h\<lparr>listener := listener h @ [(INFO, ''starting the import'', [])]\<rparr>)"
  using assms
  by (simp add: import_spine_def import_spine_improved_def validate_file_path_def Let_def
      debug_print_def)

theorem missing_json_no_partial_work_witness:
  "import_spine no_files_env (lit ''x.json'') (lit ''x.atlas'') (lit ''tex'') (Fin 1) host0 =
     ((''JSON file not found'', [lit ''x.json'']),
      host0\<lparr>listener := [(INFO, ''starting the import'', []),
                           (ERROR, ''JSON file not found'', [lit ''x.json''])]\<rparr>)
   \<and> import_spine_improved no_files_env (lit ''x.json'') (lit ''x.atlas'') (lit ''tex'') (Fin 1)
        host0 =
     ((''does not exist'', [lit ''JSON file'', lit ''x.json'']),
      host0\<lparr>listener := [(INFO, ''starting the import'', [])]\<rparr>)"
proof -
  have a: "\<not> path_exists no_files_env (lit ''x.json'')" by (simp add: no_files_env_def)
  show ?thesis
    using missing_json_no_partial_work [OF a, of "lit ''x.atlas''" "lit ''tex''" "Fin 1" host0]
    by (simp add: host0_def)
qed

end
